theory Spec2Isabelle
  imports Main "HOL-Library.Word" "HOL-Library.Signed_Division"
begin

unbundle bit_operations_syntax

section \<open>blzlib: the calls made on the bus, and what the bus answers\<close>

text \<open>
  blzlib.c talks to BlueZ through sd-bus. Each function of blzlib.c is embedded as a
  function that takes the list of calls made so far (the trace) and returns it extended,
  together with the C return value. What sd-bus, the clock and the allocator answer is
  not decided by blzlib.c: it is read from an environment \<open>E\<close>, indexed by the position
  of the call in the trace. The theorems hold for every environment.

  \<open>int\<close> return codes are HOL integers (no arithmetic is done on them beyond a sign test
  and one negation); the millisecond arithmetic of the wait loop is done on 32-bit words,
  as \<open>uint32_t\<close> does it. \<open>sd_bus_error_free\<close> and \<open>sd_bus_message_unref\<close> release
  local objects only and are left out of the trace.
\<close>

type_synonym path = string
type_synonym bytes = "8 word list"

record timespec =
  tv_sec :: "64 word"
  tv_nsec :: "64 word"

datatype log_level = LOG_ERR | LOG_NOTI | LOG_INF

text \<open>A D-Bus method call under construction: destination object, interface, member, and
  the string properties appended to its dictionary argument.\<close>

record bus_message =
  msg_path :: path
  msg_interface :: string
  msg_member :: string
  msg_props :: "(string \<times> string) list"
  msg_array :: bytes

text \<open>The reply to the asynchronous ConnectDevice call, as \<open>connect_new_cb\<close> reads it:
  an error reply with its errno, or a method return; for the latter the result of
  \<open>sd_bus_message_read_basic(reply, 'o', &opath)\<close> and the object path read.\<close>

datatype bus_reply =
    Method_error int
  | Method_return int path

text \<open>What one \<open>sd_bus_process\<close> step hands to the callbacks registered by blzlib.c.\<close>

datatype delivery =
    Connect_new_reply bus_reply
  | Device_properties_changed "(string \<times> bool) list"
  | Char_properties_changed "(string \<times> bool) list" "bytes option"

datatype uuid_list = Service_uuids | Char_uuids

datatype event =
    Clock_gettime timespec
  | Calloc
  | Sd_bus_process
  | Sd_bus_wait "64 word"
  | Sd_bus_unref
  | Sd_bus_get_property_trivial path string string
  | Sd_bus_match_signal path string string
  | Sd_bus_slot_unref path
  | Sd_bus_call_method path string string
  | Sd_bus_message_new_method_call path string string
  | Sd_bus_message_open_container
  | Msg_append_property string string
  | Sd_bus_message_append_array bytes
  | Sd_bus_message_close_container
  | Sd_bus_call_async bus_message "64 word"
  | Sd_bus_call bus_message
  | Sd_bus_message_read_array
  | Sd_bus_message_read_fd
  | Dup int
  | Notify_cb bytes
  | Free_ctx
  | Free_dev
  | Free_string string
  | Free_strv uuid_list "string list option"
  | Log log_level string "string list"

record env =
  clock_now :: "nat \<Rightarrow> timespec"
  alloc_ok :: "nat \<Rightarrow> bool"
  bus_ret :: "nat \<Rightarrow> int"
  bus_unknown_object :: "nat \<Rightarrow> bool"
  bus_bool :: "nat \<Rightarrow> bool"
  bus_bytes :: "nat \<Rightarrow> bytes"
  bus_fd :: "nat \<Rightarrow> int"
  bus_dispatch :: "nat \<Rightarrow> delivery list"

text \<open>The outcome of a call that waits: it returned, it is still in its wait loop after
  the given number of iterations, or it freed a block twice or used a freed block.\<close>

datatype fault = Double_free | Use_after_free

datatype 'a outcome = Done 'a | Out_of_fuel | Faulted fault

text \<open>A log line: its level, its format string, and those of its arguments that are
  strings of the program (error texts supplied by sd-bus or \<open>strerror\<close> are left out).\<close>

definition LOG :: "log_level \<Rightarrow> string \<Rightarrow> string list \<Rightarrow> event list \<Rightarrow> event list" where
  "LOG lvl fmt args tr = tr @ [Log lvl fmt args]"

definition clock_gettime :: "env \<Rightarrow> event list \<Rightarrow> timespec \<times> event list" where
  "clock_gettime E tr = (let ts = clock_now E (length tr) in (ts, tr @ [Clock_gettime ts]))"

definition EINTR :: int where
  "EINTR = 4"

section \<open>The wait loop\<close>

text \<open>
  \<open>uint32_t current_ms = ts.tv_sec * 1000 + ts.tv_nsec / 1000000;\<close>
  The right-hand side is computed in \<open>long\<close> (64 bits, division truncating towards zero)
  and converted to \<open>uint32_t\<close>, which keeps the low 32 bits.
\<close>

definition timespec_ms :: "timespec \<Rightarrow> 32 word" where
  "timespec_ms ts = word_of_int (sint (tv_sec ts) * 1000 + sint (tv_nsec ts) sdiv 1000000)"

text \<open>
  \<open>blz_loop\<close>: one \<open>sd_bus_process\<close> step, during which sd-bus runs the callbacks of
  the messages it dispatches (\<open>deliver\<close>, on the handle \<open>s\<close> the caller waits on), then
  \<open>sd_bus_wait\<close> only if the step returned 0.
\<close>

definition blz_loop ::
  "env \<Rightarrow> (delivery \<Rightarrow> 's \<times> event list \<Rightarrow> 's \<times> event list) \<Rightarrow> 64 word \<Rightarrow>
   's \<times> event list \<Rightarrow> 's \<times> event list" where
  "blz_loop E deliver timeout_us st =
     (let r = bus_ret E (length (snd st));
          (s1, tr1) = foldl (\<lambda>acc d. deliver d acc) (fst st, snd st @ [Sd_bus_process])
                        (bus_dispatch E (length (snd st)))
      in if r < 0 then (s1, LOG LOG_ERR ''BLZ loop process error: %s'' [] tr1)
         else if r > 0 then (s1, tr1)
         else let r2 = bus_ret E (length tr1);
                  tr2 = tr1 @ [Sd_bus_wait timeout_us]
              in if r2 < 0 \<and> - r2 \<noteq> EINTR
                 then (s1, LOG LOG_ERR ''BLZ loop wait error: %s'' [] tr2)
                 else (s1, tr2))"

text \<open>
  The \<open>while\<close> loop of \<open>blz_loop_timeout\<close>. It may run for ever (a clock that stands
  still), so it takes a bound on its iterations; the first component of its result says
  whether the bound was used up with the loop condition still true. \<open>(end_ms - current_ms) * 1000\<close> is a
  \<open>uint32_t\<close> product, widened to the \<open>uint64_t\<close> parameter afterwards.
\<close>

fun blz_loop_timeout_while ::
  "nat \<Rightarrow> env \<Rightarrow> (delivery \<Rightarrow> 's \<times> event list \<Rightarrow> 's \<times> event list) \<Rightarrow> ('s \<Rightarrow> bool) \<Rightarrow>
   32 word \<Rightarrow> 32 word \<Rightarrow> 's \<times> event list \<Rightarrow> bool \<times> 's \<times> event list" where
  "blz_loop_timeout_while 0 E deliver check end_ms current_ms (s, tr) =
     (\<not> check s \<and> current_ms < end_ms, s, tr)"
| "blz_loop_timeout_while (Suc fuel) E deliver check end_ms current_ms (s, tr) =
     (if \<not> check s \<and> current_ms < end_ms
      then let (s1, tr1) = blz_loop E deliver (ucast ((end_ms - current_ms) * 1000)) (s, tr);
               (ts, tr2) = clock_gettime E tr1
           in blz_loop_timeout_while fuel E deliver check end_ms (timespec_ms ts) (s1, tr2)
      else (False, s, tr))"

text \<open>\<open>blz_loop_timeout\<close>: 0 when the flag is set, -1 on timeout.\<close>

definition blz_loop_timeout ::
  "nat \<Rightarrow> env \<Rightarrow> (delivery \<Rightarrow> 's \<times> event list \<Rightarrow> 's \<times> event list) \<Rightarrow> ('s \<Rightarrow> bool) \<Rightarrow>
   32 word \<Rightarrow> 's \<times> event list \<Rightarrow> int outcome \<times> 's \<times> event list" where
  "blz_loop_timeout fuel E deliver check timeout_ms st =
     (let (ts, tr0) = clock_gettime E (snd st);
          current_ms = timespec_ms ts;
          end_ms = current_ms + timeout_ms;
          (running, s1, tr1) =
             blz_loop_timeout_while fuel E deliver check end_ms current_ms (fst st, tr0)
      in if running then (Out_of_fuel, s1, tr1)
         else (Done (if check s1 then 0 else - 1), s1, tr1))"

text \<open>
  The same wait, described in natural numbers with every reduction modulo \<open>2^32\<close>
  written out: the entry time is the clock's millisecond count modulo \<open>2^32\<close>, the
  deadline is entry time plus timeout modulo \<open>2^32\<close>, fixed at entry; the loop goes on
  while the flag is clear and the current time, modulo \<open>2^32\<close>, is below the deadline;
  each wait is given the difference of the two in microseconds, modulo \<open>2^32\<close>.
\<close>

definition monotonic_ms_mod_2_32 :: "timespec \<Rightarrow> nat" where
  "monotonic_ms_mod_2_32 ts =
     nat ((sint (tv_sec ts) * 1000 + sint (tv_nsec ts) sdiv 1000000) mod 2 ^ 32)"

fun wait_loop_mod_2_32 ::
  "nat \<Rightarrow> env \<Rightarrow> (delivery \<Rightarrow> 's \<times> event list \<Rightarrow> 's \<times> event list) \<Rightarrow> ('s \<Rightarrow> bool) \<Rightarrow>
   nat \<Rightarrow> nat \<Rightarrow> 's \<times> event list \<Rightarrow> bool \<times> 's \<times> event list" where
  "wait_loop_mod_2_32 0 E deliver check deadline now (s, tr) =
     (\<not> check s \<and> now < deadline, s, tr)"
| "wait_loop_mod_2_32 (Suc fuel) E deliver check deadline now (s, tr) =
     (if \<not> check s \<and> now < deadline
      then let (s1, tr1) = blz_loop E deliver (of_nat ((deadline - now) * 1000 mod 2 ^ 32)) (s, tr);
               (ts, tr2) = clock_gettime E tr1
           in wait_loop_mod_2_32 fuel E deliver check deadline (monotonic_ms_mod_2_32 ts) (s1, tr2)
      else (False, s, tr))"

definition blz_loop_timeout_mod_2_32 ::
  "nat \<Rightarrow> env \<Rightarrow> (delivery \<Rightarrow> 's \<times> event list \<Rightarrow> 's \<times> event list) \<Rightarrow> ('s \<Rightarrow> bool) \<Rightarrow>
   nat \<Rightarrow> 's \<times> event list \<Rightarrow> int outcome \<times> 's \<times> event list" where
  "blz_loop_timeout_mod_2_32 fuel E deliver check timeout st =
     (let (ts, tr0) = clock_gettime E (snd st);
          entry = monotonic_ms_mod_2_32 ts;
          deadline = (entry + timeout) mod 2 ^ 32;
          (running, s1, tr1) =
             wait_loop_mod_2_32 fuel E deliver check deadline entry (fst st, tr0)
      in if running then (Out_of_fuel, s1, tr1)
         else (Done (if check s1 then 0 else - 1), s1, tr1))"

section \<open>Declarations of the headers\<close>

text \<open>
  blzlib.h, blzlib_internal.h and blzlib_util.h are not among the sources. What blzlib.c
  takes from them is a parameter \<open>H\<close> of the model: the two constants, the bit masks of
  the characteristic flags, and the parser of the address string.
\<close>

text \<open>
  Modelled from the spec: \<open>enum blz_addr_type\<close> of blzlib.h, which is not among the
  sources. blzlib.c names \<open>BLZ_ADDR_UNKNOWN\<close> and \<open>BLZ_ADDR_PUBLIC\<close>; the address type of
  the spec is public, random or unspecified.
\<close>

datatype blz_addr_type = BLZ_ADDR_UNKNOWN | BLZ_ADDR_PUBLIC | BLZ_ADDR_RANDOM

type_synonym mac_addr = "8 word \<times> 8 word \<times> 8 word \<times> 8 word \<times> 8 word \<times> 8 word"

record headers =
  DBUS_PATH_MAX_LEN :: nat
  CONNECT_NEW_TIMEOUT :: int
  BLZ_CHAR_READ :: "32 word"
  BLZ_CHAR_WRITE :: "32 word"
  BLZ_CHAR_WRITE_WITHOUT_RESPONSE :: "32 word"
  BLZ_CHAR_NOTIFY :: "32 word"
  BLZ_CHAR_INDICATE :: "32 word"
  blz_string_to_mac :: "string \<Rightarrow> mac_addr"

section \<open>Handles\<close>

type_synonym handler = nat

datatype sd_bus_slot = Slot path

record blz_context =
  ctx_path :: path
  scan_slot :: "sd_bus_slot option"
  scan_cb :: "handler option"

record blz_dev =
  dev_ctx :: blz_context
  dev_path :: path
  connected :: bool
  services_resolved :: bool
  connect_slot :: "sd_bus_slot option"
  disconnect_cb :: "handler option"
  service_uuids :: "string list option"
  char_uuids :: "string list option"
  connect_new_done :: bool
  connect_new_result :: int

record blz_char =
  ch_ctx :: blz_context
  ch_path :: path
  uuid :: string
  flags :: "32 word"
  notify_slot :: "sd_bus_slot option"
  notify_cb :: "handler option"
  notifying :: bool

text \<open>A pointer to the device handle, and the handle's block on the heap: its fields
  while it is allocated, \<open>None\<close> before \<open>calloc\<close> and after \<open>free\<close>.\<close>

datatype dev_ptr = NULL | Dev_ptr

type_synonym dev_heap = "blz_dev option"

definition free_dev :: "dev_heap \<times> event list \<Rightarrow> unit outcome \<times> dev_heap \<times> event list" where
  "free_dev st =
     (case fst st of
        Some dev \<Rightarrow> (Done (), None, snd st @ [Free_dev])
      | None \<Rightarrow> (Faulted Double_free, None, snd st @ [Free_dev]))"

section \<open>sd-bus calls\<close>

definition sd_bus_call_method ::
  "env \<Rightarrow> path \<Rightarrow> string \<Rightarrow> string \<Rightarrow> event list \<Rightarrow> int \<times> event list" where
  "sd_bus_call_method E p i m tr = (bus_ret E (length tr), tr @ [Sd_bus_call_method p i m])"

definition sd_bus_match_signal ::
  "env \<Rightarrow> path \<Rightarrow> string \<Rightarrow> string \<Rightarrow> event list \<Rightarrow> int \<times> event list" where
  "sd_bus_match_signal E p i m tr = (bus_ret E (length tr), tr @ [Sd_bus_match_signal p i m])"

text \<open>Reading a boolean property: the return code, whether a failure carries the error
  name \<open>SD_BUS_ERROR_UNKNOWN_OBJECT\<close>, and the value stored on success.\<close>

definition sd_bus_get_property_trivial ::
  "env \<Rightarrow> path \<Rightarrow> string \<Rightarrow> string \<Rightarrow> event list \<Rightarrow> (int \<times> bool \<times> bool) \<times> event list" where
  "sd_bus_get_property_trivial E p i m tr =
     ((bus_ret E (length tr), bus_unknown_object E (length tr), bus_bool E (length tr)),
      tr @ [Sd_bus_get_property_trivial p i m])"

definition sd_bus_message_new_method_call ::
  "env \<Rightarrow> path \<Rightarrow> string \<Rightarrow> string \<Rightarrow> event list \<Rightarrow> (int \<times> bus_message) \<times> event list" where
  "sd_bus_message_new_method_call E p i m tr =
     ((bus_ret E (length tr),
       \<lparr>msg_path = p, msg_interface = i, msg_member = m, msg_props = [], msg_array = []\<rparr>),
      tr @ [Sd_bus_message_new_method_call p i m])"

definition sd_bus_message_open_container :: "env \<Rightarrow> event list \<Rightarrow> int \<times> event list" where
  "sd_bus_message_open_container E tr = (bus_ret E (length tr), tr @ [Sd_bus_message_open_container])"

definition sd_bus_message_close_container :: "env \<Rightarrow> event list \<Rightarrow> int \<times> event list" where
  "sd_bus_message_close_container E tr =
     (bus_ret E (length tr), tr @ [Sd_bus_message_close_container])"

definition msg_append_property ::
  "env \<Rightarrow> bus_message \<Rightarrow> string \<Rightarrow> string \<Rightarrow> event list \<Rightarrow> (int \<times> bus_message) \<times> event list" where
  "msg_append_property E call name v tr =
     ((bus_ret E (length tr), call\<lparr>msg_props := msg_props call @ [(name, v)]\<rparr>),
      tr @ [Msg_append_property name v])"

definition sd_bus_message_append_array ::
  "env \<Rightarrow> bus_message \<Rightarrow> bytes \<Rightarrow> event list \<Rightarrow> (int \<times> bus_message) \<times> event list" where
  "sd_bus_message_append_array E call bs tr =
     ((bus_ret E (length tr), call\<lparr>msg_array := bs\<rparr>), tr @ [Sd_bus_message_append_array bs])"

definition sd_bus_call_async ::
  "env \<Rightarrow> bus_message \<Rightarrow> 64 word \<Rightarrow> event list \<Rightarrow> int \<times> event list" where
  "sd_bus_call_async E call usec tr = (bus_ret E (length tr), tr @ [Sd_bus_call_async call usec])"

definition sd_bus_call :: "env \<Rightarrow> bus_message \<Rightarrow> event list \<Rightarrow> int \<times> event list" where
  "sd_bus_call E call tr = (bus_ret E (length tr), tr @ [Sd_bus_call call])"

section \<open>Connecting\<close>

text \<open>\<open>"%02X"\<close> of a byte, and the device path
  \<open>"%s/dev_%02X_%02X_%02X_%02X_%02X_%02X"\<close> that \<open>blz_connect\<close> prints.\<close>

definition hex_digit :: "nat \<Rightarrow> char" where
  "hex_digit n = ''0123456789ABCDEF'' ! (n mod 16)"

definition hex2 :: "8 word \<Rightarrow> string" where
  "hex2 b = [hex_digit (unat b div 16), hex_digit (unat b mod 16)]"

fun device_path :: "path \<Rightarrow> mac_addr \<Rightarrow> path" where
  "device_path ctxp (m0, m1, m2, m3, m4, m5) =
     ctxp @ ''/dev_'' @ hex2 m0 @ ''_'' @ hex2 m1 @ ''_'' @ hex2 m2 @ ''_'' @ hex2 m3
          @ ''_'' @ hex2 m4 @ ''_'' @ hex2 m5"

text \<open>
  Modelled from the spec: \<open>msg_parse_interface(m, MSG_DEVICE, NULL, dev)\<close> of
  blzlib_util.c, which is not among the sources. It parses the property map of one
  PropertiesChanged signal and updates the handle's boolean flags by name; unknown
  properties are ignored.
\<close>

fun msg_parse_interface_MSG_DEVICE :: "(string \<times> bool) list \<Rightarrow> blz_dev \<Rightarrow> blz_dev" where
  "msg_parse_interface_MSG_DEVICE [] dev = dev"
| "msg_parse_interface_MSG_DEVICE ((name, b) # ps) dev =
     msg_parse_interface_MSG_DEVICE ps
       (if name = ''Connected'' then dev\<lparr>connected := b\<rparr>
        else if name = ''ServicesResolved'' then dev\<lparr>services_resolved := b\<rparr>
        else dev)"

fun blz_connect_cb ::
  "(string \<times> bool) list \<Rightarrow> blz_dev option \<Rightarrow> event list \<Rightarrow> int \<times> blz_dev option \<times> event list" where
  "blz_connect_cb m None tr = (- 1, None, LOG LOG_ERR ''BLZ conn no dev'' [] tr)"
| "blz_connect_cb m (Some dev) tr = (0, Some (msg_parse_interface_MSG_DEVICE m dev), tr)"

definition blz_connect_known :: "env \<Rightarrow> blz_dev \<Rightarrow> event list \<Rightarrow> int \<times> event list" where
  "blz_connect_known E dev tr =
     (let (r, tr1) = sd_bus_call_method E (dev_path dev) ''org.bluez.Device1'' ''Connect'' tr
      in if r < 0 then (r, LOG LOG_ERR ''BLZ connect failed: %s'' [] tr1) else (r, tr1))"

text \<open>\<open>connect_new_cb\<close>: the three branches that jump to \<open>exit\<close> and the one that falls
  through to it, then the two stores.\<close>

definition connect_new_cb ::
  "bus_reply \<Rightarrow> blz_dev \<Rightarrow> event list \<Rightarrow> int \<times> blz_dev \<times> event list" where
  "connect_new_cb reply dev tr =
     (let (r, tr1) =
            (case reply of
               Method_error errno \<Rightarrow>
                 (- errno, LOG LOG_INF ''BLZ connect new error: %s %s (%d)'' [] tr)
             | Method_return rr opath \<Rightarrow>
                 if rr < 0
                 then (rr, LOG LOG_ERR ''BLZ connect new failed to read result: %s'' [] tr)
                 else if opath \<noteq> dev_path dev
                 then (- 1, LOG LOG_ERR ''BLZ connect new device paths don't match (%s %s)''
                              [opath, dev_path dev] tr)
                 else (rr, tr))
      in (r, dev\<lparr>connect_new_result := r, connect_new_done := True\<rparr>, tr1))"

text \<open>The callbacks that an \<open>sd_bus_process\<close> step can run on a device handle. A
  signal for a characteristic goes to that characteristic's callback and leaves the
  device handle as it is.\<close>

fun deliver_dev :: "delivery \<Rightarrow> blz_dev \<times> event list \<Rightarrow> blz_dev \<times> event list" where
  "deliver_dev (Connect_new_reply reply) (dev, tr) =
     (case connect_new_cb reply dev tr of (r, dev1, tr1) \<Rightarrow> (dev1, tr1))"
| "deliver_dev (Device_properties_changed m) (dev, tr) =
     (case blz_connect_cb m (Some dev) tr of
        (r, Some dev1, tr1) \<Rightarrow> (dev1, tr1)
      | (r, None, tr1) \<Rightarrow> (dev, tr1))"
| "deliver_dev (Char_properties_changed m v) (dev, tr) = (dev, tr)"

text \<open>
  \<open>blz_connect_new\<close>. The local \<open>error\<close> is never handed to sd-bus, so after a failed
  \<open>sd_bus_call_async\<close> the test for \<open>SD_BUS_ERROR_UNKNOWN_METHOD\<close> is false and the
  \<open>LOG_ERR\<close> branch is the one taken. \<open>CONNECT_NEW_TIMEOUT\<close> is an \<open>int\<close> constant, a
  number of seconds; its products with 1000000 and 1000 are converted to the \<open>uint64_t\<close>
  and \<open>uint32_t\<close> parameters, which keeps their low 64 and 32 bits.
\<close>

definition blz_connect_new ::
  "headers \<Rightarrow> nat \<Rightarrow> env \<Rightarrow> string \<Rightarrow> bool \<Rightarrow> blz_dev \<times> event list \<Rightarrow>
   int outcome \<times> blz_dev \<times> event list" where
  "blz_connect_new H fuel E macstr addr_public st =
     (let dev = fst st;
          tr0 = LOG LOG_INF ''Connect new to %s (%s)''
                  [macstr, if addr_public then ''public'' else ''random''] (snd st);
          ((r1, call1), tr1) =
             sd_bus_message_new_method_call E (ctx_path (dev_ctx dev))
               ''org.bluez.Adapter1'' ''ConnectDevice'' tr0
      in if r1 < 0
         then (Done r1, dev, LOG LOG_ERR ''BLZ connect new failed to create message'' [] tr1)
         else
      let (r2, tr2) = sd_bus_message_open_container E tr1
      in if r2 < 0
         then (Done r2, dev, LOG LOG_ERR ''BLZ connect new failed to create message'' [] tr2)
         else
      let ((r3, call3), tr3) = msg_append_property E call1 ''Address'' macstr tr2
      in if r3 < 0 then (Done r3, dev, tr3)
         else
      let ((r4, call4), tr4) =
             msg_append_property E call3 ''AddressType''
               (if addr_public then ''public'' else ''random'') tr3
      in if r4 < 0 then (Done r4, dev, tr4)
         else
      let (r5, tr5) = sd_bus_message_close_container E tr4
      in if r5 < 0
         then (Done r5, dev, LOG LOG_ERR ''BLZ connect new failed to create message'' [] tr5)
         else
      let dev6 = dev\<lparr>connect_new_done := False\<rparr>;
          (r6, tr6) = sd_bus_call_async E call4 (word_of_int (CONNECT_NEW_TIMEOUT H * 1000000)) tr5
      in if r6 < 0
         then (Done r6, dev6, LOG LOG_ERR ''BLZ connect new failed: %s'' [] tr6)
         else
      (case blz_loop_timeout fuel E deliver_dev connect_new_done
              (word_of_int (CONNECT_NEW_TIMEOUT H * 1000)) (dev6, tr6) of
         (Done r7, dev7, tr7) \<Rightarrow>
           if r7 < 0 then (Done r7, dev7, LOG LOG_ERR ''BLZ connect new timeout'' [] tr7)
           else (Done (connect_new_result dev7), dev7, tr7)
       | (Out_of_fuel, dev7, tr7) \<Rightarrow> (Out_of_fuel, dev7, tr7)
       | (Faulted f, dev7, tr7) \<Rightarrow> (Faulted f, dev7, tr7)))"

text \<open>
  \<open>blz_disconnect\<close>. The two \<open>for\<close> loops free the strings of a NULL-terminated array
  and stop at once on a NULL array; \<open>free\<close> is then called on the array itself, NULL or
  not. The last statement frees the handle.
\<close>

definition free_uuids :: "uuid_list \<Rightarrow> string list option \<Rightarrow> event list \<Rightarrow> event list" where
  "free_uuids which l tr =
     (case l of
        None \<Rightarrow> tr @ [Free_strv which None]
      | Some xs \<Rightarrow> tr @ map Free_string xs @ [Free_strv which (Some xs)])"

fun blz_disconnect ::
  "env \<Rightarrow> dev_ptr \<Rightarrow> dev_heap \<times> event list \<Rightarrow> unit outcome \<times> dev_heap \<times> event list" where
  "blz_disconnect E NULL (h, tr) = (Done (), h, tr)"
| "blz_disconnect E Dev_ptr (None, tr) = (Faulted Use_after_free, None, tr)"
| "blz_disconnect E Dev_ptr (Some dev, tr) =
     (let (dev1, tr1) =
            (case connect_slot dev of
               Some (Slot p) \<Rightarrow> (dev\<lparr>connect_slot := None\<rparr>, tr @ [Sd_bus_slot_unref p])
             | None \<Rightarrow> (dev, tr));
          (r, tr2) = sd_bus_call_method E (dev_path dev1) ''org.bluez.Device1'' ''Disconnect'' tr1;
          tr3 = (if r < 0 then LOG LOG_ERR ''BLZ failed to disconnect: %s'' [] tr2 else tr2);
          tr4 = free_uuids Service_uuids (service_uuids dev1) tr3;
          tr5 = free_uuids Char_uuids (char_uuids dev1) tr4
      in free_dev (Some dev1, tr5))"

text \<open>
  \<open>blz_connect\<close>, in the order of the source: the \<open>exit\<close> label; the wait for
  ServicesResolved; the choice between Connect and ConnectDevice; the subscription to
  PropertiesChanged; the branch on \<open>conn_status\<close>; and the function's entry, up to the
  query of the Connected property. \<open>conn_status\<close> starts at -2, is stored as 0 or 1 by
  a successful query and set to -1 when the query fails with unknown-object.
\<close>

definition blz_connect_exit ::
  "int \<Rightarrow> dev_heap \<times> event list \<Rightarrow> dev_ptr outcome \<times> dev_heap \<times> event list" where
  "blz_connect_exit r st =
     (if r < 0
      then (case free_dev st of
              (Done u, h, tr) \<Rightarrow> (Done NULL, h, tr)
            | (Out_of_fuel, h, tr) \<Rightarrow> (Out_of_fuel, h, tr)
            | (Faulted f, h, tr) \<Rightarrow> (Faulted f, h, tr))
      else (Done Dev_ptr, fst st, snd st))"

definition blz_connect_wait ::
  "nat \<Rightarrow> env \<Rightarrow> handler option \<Rightarrow> blz_dev \<times> event list \<Rightarrow>
   dev_ptr outcome \<times> dev_heap \<times> event list" where
  "blz_connect_wait fuel E cb st =
     (case blz_loop_timeout fuel E deliver_dev services_resolved 30000 st of
        (Done r, dev1, tr1) \<Rightarrow>
          if r < 0
          then (case blz_disconnect E Dev_ptr
                       (Some dev1, LOG LOG_ERR ''BLZ timeout waiting for ServicesResolved'' [] tr1) of
                  (Done u, h2, tr2) \<Rightarrow> blz_connect_exit r (h2, tr2)
                | (Out_of_fuel, h2, tr2) \<Rightarrow> (Out_of_fuel, h2, tr2)
                | (Faulted f, h2, tr2) \<Rightarrow> (Faulted f, h2, tr2))
          else blz_connect_exit r (Some (dev1\<lparr>connected := True, disconnect_cb := cb\<rparr>), tr1)
      | (Out_of_fuel, dev1, tr1) \<Rightarrow> (Out_of_fuel, Some dev1, tr1)
      | (Faulted f, dev1, tr1) \<Rightarrow> (Faulted f, Some dev1, tr1))"

definition blz_connect_call ::
  "headers \<Rightarrow> nat \<Rightarrow> env \<Rightarrow> string \<Rightarrow> blz_addr_type \<Rightarrow> int \<Rightarrow> int \<Rightarrow> blz_dev \<times> event list \<Rightarrow>
   int outcome \<times> blz_dev \<times> event list" where
  "blz_connect_call H fuel E macstr atype conn_status r st =
     (if conn_status = 0
      then (let (r1, tr1) = blz_connect_known E (fst st) (snd st) in (Done r1, fst st, tr1))
      else if conn_status = - 1
      then (case blz_connect_new H fuel E macstr
                   (if atype = BLZ_ADDR_PUBLIC then True else False) st of
              (Done r1, dev1, tr1) \<Rightarrow>
                if r1 < 0 \<and> atype = BLZ_ADDR_UNKNOWN
                then blz_connect_new H fuel E macstr
                       (if atype = BLZ_ADDR_PUBLIC then False else True) (dev1, tr1)
                else (Done r1, dev1, tr1)
            | (Out_of_fuel, dev1, tr1) \<Rightarrow> (Out_of_fuel, dev1, tr1)
            | (Faulted f, dev1, tr1) \<Rightarrow> (Faulted f, dev1, tr1))
      else (Done r, fst st, snd st))"

definition blz_connect_subscribe ::
  "headers \<Rightarrow> nat \<Rightarrow> env \<Rightarrow> string \<Rightarrow> blz_addr_type \<Rightarrow> handler option \<Rightarrow> int \<Rightarrow>
   blz_dev \<times> event list \<Rightarrow> dev_ptr outcome \<times> dev_heap \<times> event list" where
  "blz_connect_subscribe H fuel E macstr atype cb conn_status st =
     (let dev = fst st;
          (r, tr1) = sd_bus_match_signal E (dev_path dev)
                       ''org.freedesktop.DBus.Properties'' ''PropertiesChanged'' (snd st)
      in if r < 0
         then blz_connect_exit r (Some dev, LOG LOG_ERR ''BLZ Failed to add connect signal'' [] tr1)
         else
           (case blz_connect_call H fuel E macstr atype conn_status r
                   (dev\<lparr>connect_slot := Some (Slot (dev_path dev))\<rparr>, tr1) of
              (Done r2, dev2, tr2) \<Rightarrow>
                if r2 < 0 then blz_connect_exit r2 (Some dev2, tr2)
                else blz_connect_wait fuel E cb (dev2, tr2)
            | (Out_of_fuel, dev2, tr2) \<Rightarrow> (Out_of_fuel, Some dev2, tr2)
            | (Faulted f, dev2, tr2) \<Rightarrow> (Faulted f, Some dev2, tr2)))"

definition blz_connect_status ::
  "headers \<Rightarrow> nat \<Rightarrow> env \<Rightarrow> string \<Rightarrow> blz_addr_type \<Rightarrow> handler option \<Rightarrow> int \<Rightarrow> int \<Rightarrow>
   blz_dev \<times> event list \<Rightarrow> dev_ptr outcome \<times> dev_heap \<times> event list" where
  "blz_connect_status H fuel E macstr atype cb conn_status r st =
     (let dev = fst st
      in if conn_status = 1
         then (let tr1 = LOG LOG_NOTI ''Device %s already was connected'' [macstr] (snd st);
                   ((r2, unknown, sr), tr2) =
                      sd_bus_get_property_trivial E (dev_path dev)
                        ''org.bluez.Device1'' ''ServicesResolved'' tr1
               in if r2 < 0
                  then blz_connect_exit r2
                         (Some dev, LOG LOG_ERR ''BLZ failed to get ServicesResolved: %s'' [] tr2)
                  else blz_connect_subscribe H fuel E macstr atype cb conn_status
                         (dev\<lparr>services_resolved := sr\<rparr>, tr2))
         else if conn_status \<noteq> 0 \<and> conn_status \<noteq> - 1
         then blz_connect_exit r (Some dev, snd st)
         else blz_connect_subscribe H fuel E macstr atype cb conn_status st)"

definition blz_connect ::
  "headers \<Rightarrow> nat \<Rightarrow> env \<Rightarrow> blz_context \<Rightarrow> string \<Rightarrow> blz_addr_type \<Rightarrow> handler option \<Rightarrow>
   event list \<Rightarrow> dev_ptr outcome \<times> dev_heap \<times> event list" where
  "blz_connect H fuel E ctx macstr atype cb tr =
     (if \<not> alloc_ok E (length tr)
      then (Done NULL, None, LOG LOG_ERR ''blz_dev: alloc failed'' [] (tr @ [Calloc]))
      else
        let tr0 = tr @ [Calloc];
            p = device_path (ctx_path ctx) (blz_string_to_mac H macstr);
            dev = \<lparr>dev_ctx = ctx, dev_path = p, connected = False, services_resolved = False,
                   connect_slot = None, disconnect_cb = None, service_uuids = None,
                   char_uuids = None, connect_new_done = False, connect_new_result = 0\<rparr>
        in if DBUS_PATH_MAX_LEN H \<le> length p
           then (case free_dev
                        (Some dev, LOG LOG_ERR ''BLZ connect failed to construct device path'' [] tr0) of
                   (u, h, tr1) \<Rightarrow> (Done NULL, h, tr1))
           else
             let ((r, unknown, b), tr1) =
                    sd_bus_get_property_trivial E p ''org.bluez.Device1'' ''Connected'' tr0;
                 conn_status = (if r < 0 then (if unknown then - 1 else - 2)
                                else (if b then 1 else 0))
             in if r < 0 \<and> \<not> unknown
                then blz_connect_exit r
                       (Some dev, LOG LOG_ERR ''BLZ failed to get connected: %s'' [] tr1)
                else blz_connect_status H fuel E macstr atype cb conn_status r (dev, tr1))"

section \<open>Session teardown\<close>

fun blz_fini :: "blz_context option \<Rightarrow> event list \<Rightarrow> event list" where
  "blz_fini None tr = tr"
| "blz_fini (Some ctx) tr = tr @ [Sd_bus_unref, Free_ctx]"

section \<open>Characteristics\<close>

definition sd_bus_message_read_array :: "env \<Rightarrow> event list \<Rightarrow> (int \<times> bytes) \<times> event list" where
  "sd_bus_message_read_array E tr =
     ((bus_ret E (length tr), bus_bytes E (length tr)), tr @ [Sd_bus_message_read_array])"

definition sd_bus_message_read_fd :: "env \<Rightarrow> event list \<Rightarrow> (int \<times> int) \<times> event list" where
  "sd_bus_message_read_fd E tr =
     ((bus_ret E (length tr), bus_fd E (length tr)), tr @ [Sd_bus_message_read_fd])"

definition dup :: "env \<Rightarrow> int \<Rightarrow> event list \<Rightarrow> int \<times> event list" where
  "dup E fd tr = (bus_ret E (length tr), tr @ [Dup fd])"

text \<open>\<open>return rlen;\<close> converts a \<open>size_t\<close> to the \<open>int\<close> result: the low 32 bits, read
  as two's complement.\<close>

definition int_of_size_t :: "64 word \<Rightarrow> int" where
  "int_of_size_t n = sint (ucast n :: 32 word)"

text \<open>
  \<open>blz_char_write\<close>: \<open>data\<close> is the \<open>len\<close> bytes the caller passes.
\<close>

definition blz_char_write ::
  "headers \<Rightarrow> env \<Rightarrow> blz_char \<Rightarrow> bytes \<Rightarrow> event list \<Rightarrow> bool \<times> event list" where
  "blz_char_write H E ch data tr =
     (if flags ch AND (BLZ_CHAR_WRITE H OR BLZ_CHAR_WRITE_WITHOUT_RESPONSE H) = 0
      then (False, LOG LOG_ERR ''BLZ characteristic does not support write'' [] tr)
      else
      let ((r1, call1), tr1) =
             sd_bus_message_new_method_call E (ch_path ch)
               ''org.bluez.GattCharacteristic1'' ''WriteValue'' tr
      in if r1 < 0
         then (r1 \<ge> 0, LOG LOG_ERR ''BLZ write failed to create message'' [] tr1)
         else
      let ((r2, call2), tr2) = sd_bus_message_append_array E call1 data tr1
      in if r2 < 0
         then (r2 \<ge> 0, LOG LOG_ERR ''BLZ write failed to create message'' [] tr2)
         else
      let (r3, tr3) = sd_bus_message_open_container E tr2
      in if r3 < 0
         then (r3 \<ge> 0, LOG LOG_ERR ''BLZ write failed to create message'' [] tr3)
         else
      let (r4, tr4) = sd_bus_message_close_container E tr3
      in if r4 < 0
         then (r4 \<ge> 0, LOG LOG_ERR ''BLZ write failed to create message'' [] tr4)
         else
      let (r5, tr5) = sd_bus_call E call2 tr4
      in if r5 < 0
         then (r5 \<ge> 0, LOG LOG_ERR ''BLZ failed to write: %s'' [] tr5)
         else (r5 \<ge> 0, tr5))"

text \<open>
  \<open>blz_char_read\<close>: \<open>data\<close> is the caller's buffer and \<open>len\<close> the length passed with
  it. \<open>rlen\<close> starts at \<open>(size_t) -1\<close>; a successful \<open>sd_bus_message_read_array\<close> stores
  the payload and its length. \<open>memcpy\<close> overwrites the first bytes of the buffer.
\<close>

definition blz_char_read ::
  "headers \<Rightarrow> env \<Rightarrow> blz_char \<Rightarrow> bytes \<Rightarrow> 64 word \<Rightarrow> event list \<Rightarrow> int \<times> bytes \<times> event list" where
  "blz_char_read H E ch data len tr =
     (if flags ch AND BLZ_CHAR_READ H = 0
      then (0, data, LOG LOG_ERR ''BLZ characteristic does not support read'' [] tr)
      else
      let rlen0 = (- 1 :: 64 word);
          (r, tr1) = sd_bus_call_method E (ch_path ch)
                       ''org.bluez.GattCharacteristic1'' ''ReadValue'' tr
      in if r < 0
         then (int_of_size_t rlen0, data, LOG LOG_ERR ''BLZ failed to read: %s'' [] tr1)
         else
      let ((r2, ptr), tr2) = sd_bus_message_read_array E tr1
      in if r2 < 0
         then (int_of_size_t rlen0, data, LOG LOG_ERR ''BLZ failed to read result: %s'' [] tr2)
         else
      let rlen = (of_nat (length ptr) :: 64 word);
          n = unat (if rlen < len then rlen else len);
          data1 = (if rlen > 0 then take n ptr @ drop n data else data)
      in (int_of_size_t rlen, data1, tr2))"

text \<open>
  Modelled from the spec: \<open>msg_parse_notify\<close> of blzlib_util.c, which is not among the
  sources. It parses one PropertiesChanged signal of a characteristic, updates the
  handle's "notifying" flag by name, and hands back the new value when the signal
  carries one.
\<close>

fun msg_parse_notify :: "(string \<times> bool) list \<Rightarrow> blz_char \<Rightarrow> blz_char" where
  "msg_parse_notify [] ch = ch"
| "msg_parse_notify ((name, b) # ps) ch =
     msg_parse_notify ps (if name = ''Notifying'' then ch\<lparr>notifying := b\<rparr> else ch)"

fun blz_notify_cb ::
  "(string \<times> bool) list \<Rightarrow> bytes option \<Rightarrow> blz_char option \<Rightarrow> event list \<Rightarrow>
   int \<times> blz_char option \<times> event list" where
  "blz_notify_cb m v None tr = (- 1, None, LOG LOG_ERR ''BLZ signal no callback'' [] tr)"
| "blz_notify_cb m v (Some ch) tr =
     (if notify_cb ch = None
      then (- 1, Some ch, LOG LOG_ERR ''BLZ signal no callback'' [] tr)
      else (0, Some (msg_parse_notify m ch),
            (case v of Some bs \<Rightarrow> tr @ [Notify_cb bs] | None \<Rightarrow> tr)))"

fun deliver_char :: "delivery \<Rightarrow> blz_char \<times> event list \<Rightarrow> blz_char \<times> event list" where
  "deliver_char (Char_properties_changed m v) (ch, tr) =
     (case blz_notify_cb m v (Some ch) tr of
        (r, Some ch1, tr1) \<Rightarrow> (ch1, tr1)
      | (r, None, tr1) \<Rightarrow> (ch, tr1))"
| "deliver_char (Connect_new_reply reply) (ch, tr) = (ch, tr)"
| "deliver_char (Device_properties_changed m) (ch, tr) = (ch, tr)"

text \<open>\<open>blz_char_notify_start\<close>: the result of StartNotify is logged and then overwritten
  by the result of the wait.\<close>

definition blz_char_notify_start ::
  "headers \<Rightarrow> nat \<Rightarrow> env \<Rightarrow> blz_char \<Rightarrow> handler option \<Rightarrow> event list \<Rightarrow>
   bool outcome \<times> blz_char \<times> event list" where
  "blz_char_notify_start H fuel E ch cb tr =
     (if flags ch AND (BLZ_CHAR_NOTIFY H OR BLZ_CHAR_INDICATE H) = 0
      then (Done False, ch, LOG LOG_ERR ''BLZ characteristic does not support notify'' [] tr)
      else
      let ch1 = ch\<lparr>notify_cb := cb\<rparr>;
          (r1, tr1) = sd_bus_match_signal E (ch_path ch1)
                        ''org.freedesktop.DBus.Properties'' ''PropertiesChanged'' tr
      in if r1 < 0
         then (Done (r1 \<ge> 0), ch1, LOG LOG_ERR ''BLZ Failed to notify'' [] tr1)
         else
      let ch2 = ch1\<lparr>notify_slot := Some (Slot (ch_path ch1))\<rparr>;
          (r2, tr2) = sd_bus_call_method E (ch_path ch2)
                        ''org.bluez.GattCharacteristic1'' ''StartNotify'' tr1;
          tr3 = (if r2 < 0 then LOG LOG_ERR ''BLZ Failed to start notify: %s'' [] tr2 else tr2)
      in (case blz_loop_timeout fuel E deliver_char notifying 5000 (ch2, tr3) of
            (Done r3, ch3, tr4) \<Rightarrow>
              if r3 < 0
              then (Done (r3 \<ge> 0), ch3, LOG LOG_ERR ''BLZ timeout waiting for Notifying'' [] tr4)
              else (Done (r3 \<ge> 0), ch3, tr4)
          | (Out_of_fuel, ch3, tr4) \<Rightarrow> (Out_of_fuel, ch3, tr4)
          | (Faulted f, ch3, tr4) \<Rightarrow> (Faulted f, ch3, tr4)))"

fun blz_char_notify_stop ::
  "env \<Rightarrow> blz_char option \<Rightarrow> event list \<Rightarrow> bool \<times> blz_char option \<times> event list" where
  "blz_char_notify_stop E None tr = (False, None, tr)"
| "blz_char_notify_stop E (Some ch) tr =
     (case notify_slot ch of
        None \<Rightarrow> (False, Some ch, tr)
      | Some (Slot p) \<Rightarrow>
          let (r, tr1) = sd_bus_call_method E (ch_path ch)
                           ''org.bluez.GattCharacteristic1'' ''StopNotify'' tr;
              tr2 = (if r < 0 then LOG LOG_ERR ''BLZ Failed to stop notify: %s'' [] tr1 else tr1)
          in (r \<ge> 0, Some (ch\<lparr>notify_slot := None, notify_cb := None\<rparr>),
              tr2 @ [Sd_bus_slot_unref p]))"

definition blz_char_write_fd_acquire ::
  "headers \<Rightarrow> env \<Rightarrow> blz_char \<Rightarrow> event list \<Rightarrow> int \<times> event list" where
  "blz_char_write_fd_acquire H E ch tr =
     (if flags ch AND BLZ_CHAR_WRITE_WITHOUT_RESPONSE H = 0
      then (- 1, LOG LOG_ERR ''BLZ characteristic does not support write-without-response'' [] tr)
      else
      let (r, tr1) = sd_bus_call_method E (ch_path ch)
                       ''org.bluez.GattCharacteristic1'' ''AcquireWrite'' tr
      in if r < 0 then (r, LOG LOG_ERR ''BLZ Failed acquire write: %s'' [] tr1)
         else
      let ((r2, fd), tr2) = sd_bus_message_read_fd E tr1
      in if r2 < 0 then (r2, LOG LOG_ERR ''BLZ Failed to get write fd'' [] tr2)
         else dup E fd tr2)"

section \<open>Concrete instances\<close>

text \<open>An environment in which every call succeeds, nothing is dispatched and the clock
  stands at 0; the header parameters with the flag bits of the GATT characteristic
  properties; and handles for the adapter hci0. The theorems below are instantiated on
  these and on variations of them.\<close>

definition quiet_env :: env where
  "quiet_env =
     \<lparr>clock_now = (\<lambda>n. \<lparr>tv_sec = 0, tv_nsec = 0\<rparr>), alloc_ok = (\<lambda>n. True),
      bus_ret = (\<lambda>n. 0), bus_unknown_object = (\<lambda>n. False), bus_bool = (\<lambda>n. False),
      bus_bytes = (\<lambda>n. []), bus_fd = (\<lambda>n. 3), bus_dispatch = (\<lambda>n. [])\<rparr>"

definition example_headers :: headers where
  "example_headers =
     \<lparr>DBUS_PATH_MAX_LEN = 255, CONNECT_NEW_TIMEOUT = 15,
      BLZ_CHAR_READ = 2, BLZ_CHAR_WRITE = 8, BLZ_CHAR_WRITE_WITHOUT_RESPONSE = 4,
      BLZ_CHAR_NOTIFY = 16, BLZ_CHAR_INDICATE = 32,
      blz_string_to_mac = (\<lambda>s. (0xAA, 0xBB, 0xCC, 0xDD, 0xEE, 0xFF))\<rparr>"

definition example_ctx :: blz_context where
  "example_ctx = \<lparr>ctx_path = ''/org/bluez/hci0'', scan_slot = None, scan_cb = None\<rparr>"

definition example_dev :: blz_dev where
  "example_dev =
     \<lparr>dev_ctx = example_ctx, dev_path = ''/org/bluez/hci0/dev_AA_BB_CC_DD_EE_FF'',
      connected = False, services_resolved = False, connect_slot = None,
      disconnect_cb = None, service_uuids = None, char_uuids = None,
      connect_new_done = False, connect_new_result = 0\<rparr>"

definition example_char :: blz_char where
  "example_char =
     \<lparr>ch_ctx = example_ctx,
      ch_path = ''/org/bluez/hci0/dev_AA_BB_CC_DD_EE_FF/service0001/char0002'',
      uuid = ''2a37'', flags = 0, notify_slot = None, notify_cb = None, notifying = False\<rparr>"

text \<open>The same bus with the monotonic clock at 4294967.295 s, one millisecond before the
  32-bit millisecond count wraps.\<close>

definition late_clock_env :: env where
  "late_clock_env = quiet_env\<lparr>clock_now := (\<lambda>n. \<lparr>tv_sec = 4294967, tv_nsec = 295000000\<rparr>)\<rparr>"

text \<open>The same bus with the monotonic clock at 4294967.000 s when first read and at
  4294967.296 s afterwards: between the two readings the 32-bit millisecond count wraps
  to 0.\<close>

definition wrapping_clock_env :: env where
  "wrapping_clock_env = quiet_env
     \<lparr>clock_now := (\<lambda>n. if n = 0 then \<lparr>tv_sec = 4294967, tv_nsec = 0\<rparr>
                         else \<lparr>tv_sec = 4294967, tv_nsec = 296000000\<rparr>)\<rparr>"

text \<open>A bus on which the device is not yet known, the first ConnectDevice reply carries
  another device's path, the second reply the expected path, and ServicesResolved then
  turns true.\<close>

definition retry_env :: env where
  "retry_env = quiet_env
     \<lparr>bus_ret := (\<lambda>n. if n = 1 then - 2 else 0),
      bus_unknown_object := (\<lambda>n. n = 1),
      bus_dispatch := (\<lambda>n.
        if n = 11 then [Connect_new_reply (Method_return 1 ''/org/bluez/hci0/dev_00_11_22_33_44_55'')]
        else if n = 23 then [Connect_new_reply (Method_return 1 ''/org/bluez/hci0/dev_AA_BB_CC_DD_EE_FF'')]
        else if n = 27 then [Device_properties_changed [(''ServicesResolved'', True)]]
        else [])\<rparr>"

text \<open>A bus on which the device is known and Connect succeeds, but ServicesResolved
  never arrives: the clock reads 100 s up to the entry of the wait and 130 s afterwards.\<close>

definition stalled_env :: env where
  "stalled_env = quiet_env
     \<lparr>clock_now := (\<lambda>n. if n \<le> 4 then \<lparr>tv_sec = 100, tv_nsec = 0\<rparr> else \<lparr>tv_sec = 130, tv_nsec = 0\<rparr>)\<rparr>"

section \<open>Reading traces\<close>

text \<open>\<open>free\<close> called on one of the two cached UUID arrays.\<close>

fun is_free_strv :: "uuid_list \<Rightarrow> event \<Rightarrow> bool" where
  "is_free_strv which (Free_strv k l) = (k = which)"
| "is_free_strv which e = False"

text \<open>What \<open>blz_disconnect\<close> adds to the trace for a live handle.\<close>

definition disconnect_events :: "env \<Rightarrow> blz_dev \<Rightarrow> event list \<Rightarrow> event list" where
  "disconnect_events E dev tr =
     (case connect_slot dev of Some (Slot p) \<Rightarrow> [Sd_bus_slot_unref p] | None \<Rightarrow> [])
     @ [Sd_bus_call_method (dev_path dev) ''org.bluez.Device1'' ''Disconnect'']
     @ (if bus_ret E (length tr + (case connect_slot dev of Some s \<Rightarrow> 1 | None \<Rightarrow> 0)) < 0
        then [Log LOG_ERR ''BLZ failed to disconnect: %s'' []] else [])
     @ (case service_uuids dev of Some xs \<Rightarrow> map Free_string xs | None \<Rightarrow> [])
     @ [Free_strv Service_uuids (service_uuids dev)]
     @ (case char_uuids dev of Some xs \<Rightarrow> map Free_string xs | None \<Rightarrow> [])
     @ [Free_strv Char_uuids (char_uuids dev)]
     @ [Free_dev]"

text \<open>What the wait loop and the callbacks it runs on a device handle add to the
  trace: clock readings, \<open>sd_bus_process\<close>, \<open>sd_bus_wait\<close> and log lines other than the
  one that opens an address-based attempt.\<close>

fun is_wait_event :: "event \<Rightarrow> bool" where
  "is_wait_event (Clock_gettime ts) = True"
| "is_wait_event Sd_bus_process = True"
| "is_wait_event (Sd_bus_wait us) = True"
| "is_wait_event (Log lvl fmt args) = (lvl \<noteq> LOG_INF \<or> fmt \<noteq> ''Connect new to %s (%s)'')"
| "is_wait_event e = False"

text \<open>\<open>tr1\<close> is \<open>tr\<close> followed by events that all satisfy \<open>P\<close>.\<close>

definition extends_by :: "(event \<Rightarrow> bool) \<Rightarrow> event list \<Rightarrow> event list \<Rightarrow> bool" where
  "extends_by P tr tr1 = (take (length tr) tr1 = tr \<and> list_all P (drop (length tr) tr1))"

definition any_event :: "event \<Rightarrow> bool" where
  "any_event e = True"

text \<open>An address-based connect attempt is a call of \<open>blz_connect_new\<close>, which logs
  the address and the address type it was called with before anything else. The attempts
  of a trace are the address types of these log lines, in order.\<close>

fun attempt_of :: "event \<Rightarrow> string list" where
  "attempt_of (Log lvl fmt args) =
     (if lvl = LOG_INF \<and> fmt = ''Connect new to %s (%s)'' then drop 1 args else [])"
| "attempt_of e = []"

definition connect_new_attempts :: "event list \<Rightarrow> string list" where
  "connect_new_attempts tr = concat (map attempt_of tr)"

text \<open>The ConnectDevice calls issued: the method calls named ConnectDevice that are
  handed to \<open>sd_bus_call_async\<close>, each with the AddressType it carries, in order.\<close>

fun address_type_sent :: "event \<Rightarrow> string list" where
  "address_type_sent (Sd_bus_call_async call us) =
     (if msg_member call = ''ConnectDevice''
      then map snd (filter (\<lambda>kv. fst kv = ''AddressType'') (msg_props call)) else [])"
| "address_type_sent e = []"

definition connect_device_types :: "event list \<Rightarrow> string list" where
  "connect_device_types tr = concat (map address_type_sent tr)"

text \<open>An event that neither opens an attempt nor issues a ConnectDevice call.\<close>

definition no_attempt :: "event \<Rightarrow> bool" where
  "no_attempt e = (attempt_of e = [] \<and> address_type_sent e = [])"

text \<open>The five sd-bus calls that build the ConnectDevice message of an attempt entered
  at trace \<open>tr\<close> all succeed: \<open>sd_bus_message_new_method_call\<close>, opening the array, the
  two \<open>msg_append_property\<close> and closing the array, at the five positions after the
  attempt's log line at position \<open>length tr\<close>. Only then does the attempt reach
  \<open>sd_bus_call_async\<close>.\<close>

definition message_built :: "env \<Rightarrow> event list \<Rightarrow> bool" where
  "message_built E tr =
     (0 \<le> bus_ret E (Suc (length tr)) \<and>
      0 \<le> bus_ret E (Suc (Suc (length tr))) \<and>
      0 \<le> bus_ret E (Suc (Suc (Suc (length tr)))) \<and>
      0 \<le> bus_ret E (Suc (Suc (Suc (Suc (length tr))))) \<and>
      0 \<le> bus_ret E (Suc (Suc (Suc (Suc (Suc (length tr)))))))"

text \<open>What an attempt with address type \<open>ty\<close>, entered at trace \<open>tr\<close>, issues.\<close>

definition issued_by_attempt :: "env \<Rightarrow> string \<Rightarrow> event list \<Rightarrow> string list" where
  "issued_by_attempt E ty tr = (if message_built E tr then [ty] else [])"



text \<open>A connect call on the bus: a method call named Connect or ConnectDevice, however
  it is sent.\<close>

fun is_connect_call :: "event \<Rightarrow> bool" where
  "is_connect_call (Sd_bus_call_method p i m) = (m = ''Connect'' \<or> m = ''ConnectDevice'')"
| "is_connect_call (Sd_bus_call_async call us) =
     (msg_member call = ''Connect'' \<or> msg_member call = ''ConnectDevice'')"
| "is_connect_call (Sd_bus_call call) =
     (msg_member call = ''Connect'' \<or> msg_member call = ''ConnectDevice'')"
| "is_connect_call e = False"

text \<open>Scanning the events of a call from position \<open>n\<close> of the trace on: no connect
  call is met before the event \<open>m\<close> whose answer in the environment is not negative.\<close>

fun subscribed_first :: "env \<Rightarrow> event \<Rightarrow> nat \<Rightarrow> event list \<Rightarrow> bool" where
  "subscribed_first E m n [] = True"
| "subscribed_first E m n (e # es) =
     (if e = m \<and> 0 \<le> bus_ret E n then True
      else \<not> is_connect_call e \<and> subscribed_first E m (Suc n) es)"

text \<open>The subscription to the PropertiesChanged signal of the object at \<open>p\<close>.\<close>

definition properties_changed_match :: "path \<Rightarrow> event" where
  "properties_changed_match p =
     Sd_bus_match_signal p ''org.freedesktop.DBus.Properties'' ''PropertiesChanged''"

definition subscribes_first :: "env \<Rightarrow> event \<Rightarrow> event list \<Rightarrow> event list \<Rightarrow> bool" where
  "subscribes_first E m tr tr1 =
     (take (length tr) tr1 = tr \<and> subscribed_first E m (length tr) (drop (length tr) tr1))"

section \<open>NULL handles\<close>

text \<open>
  C10. Passing NULL to the teardown operations has no effect: \<open>blz_fini(NULL)\<close> and
  \<open>blz_disconnect(NULL)\<close> return with the trace and the heap as they were, and
  \<open>blz_char_notify_stop(NULL)\<close> returns false, with no call made and no state changed.
\<close>

theorem null_handles_are_noops:
  "blz_fini None tr = tr \<and>
   blz_disconnect E NULL (h, tr) = (Done (), h, tr) \<and>
   blz_char_notify_stop E None tr = (False, None, tr)"
  by simp

section \<open>Capability flags\<close>

text \<open>
  On a characteristic that lacks the required flag, each of the four operations returns
  at once, and the only thing added to the trace is the log line: no bus request is built
  or sent. \<open>blz_char_write\<close> and \<open>blz_char_notify_start\<close> return false and
  \<open>blz_char_write_fd_acquire\<close> returns -1; \<open>blz_char_read\<close>, whose result is an \<open>int\<close>,
  executes \<open>return false\<close>, so its result is 0.
\<close>

lemma capability_check_adds_only_a_log_line:
  "(flags ch AND BLZ_CHAR_READ H = 0 \<longrightarrow>
      blz_char_read H E ch data len tr =
        (0, data, tr @ [Log LOG_ERR ''BLZ characteristic does not support read'' []])) \<and>
   (flags ch AND (BLZ_CHAR_WRITE H OR BLZ_CHAR_WRITE_WITHOUT_RESPONSE H) = 0 \<longrightarrow>
      blz_char_write H E ch wdata tr =
        (False, tr @ [Log LOG_ERR ''BLZ characteristic does not support write'' []])) \<and>
   (flags ch AND (BLZ_CHAR_NOTIFY H OR BLZ_CHAR_INDICATE H) = 0 \<longrightarrow>
      blz_char_notify_start H fuel E ch cb tr =
        (Done False, ch, tr @ [Log LOG_ERR ''BLZ characteristic does not support notify'' []])) \<and>
   (flags ch AND BLZ_CHAR_WRITE_WITHOUT_RESPONSE H = 0 \<longrightarrow>
      blz_char_write_fd_acquire H E ch tr =
        (- 1, tr @ [Log LOG_ERR ''BLZ characteristic does not support write-without-response'' []]))"
  by (simp add: blz_char_read_def blz_char_write_def blz_char_notify_start_def
        blz_char_write_fd_acquire_def LOG_def)

text \<open>
  C7. \<open>blz_char_read\<close> on a characteristic without the read flag makes no remote call,
  but the result it returns is 0, not a failure result: 0 is also what a read returns that
  succeeds with an empty payload, whereas a failed remote read returns -1, and
  \<open>blz_char_write_fd_acquire\<close>, the other operation with an \<open>int\<close> result, returns -1 on
  its missing flag.
\<close>

theorem blz_char_read_without_flag_returns_zero:
  "blz_char_read example_headers quiet_env example_char [9, 9] 2 [] =
     (0, [9, 9], [Log LOG_ERR ''BLZ characteristic does not support read'' []]) \<and>
   blz_char_read example_headers quiet_env (example_char\<lparr>flags := 2\<rparr>) [9, 9] 2 [] =
     (0, [9, 9],
      [Sd_bus_call_method ''/org/bluez/hci0/dev_AA_BB_CC_DD_EE_FF/service0001/char0002''
         ''org.bluez.GattCharacteristic1'' ''ReadValue'',
       Sd_bus_message_read_array]) \<and>
   blz_char_read example_headers (quiet_env\<lparr>bus_ret := (\<lambda>n. - 5)\<rparr>)
       (example_char\<lparr>flags := 2\<rparr>) [9, 9] 2 [] =
     (- 1, [9, 9],
      [Sd_bus_call_method ''/org/bluez/hci0/dev_AA_BB_CC_DD_EE_FF/service0001/char0002''
         ''org.bluez.GattCharacteristic1'' ''ReadValue'',
       Log LOG_ERR ''BLZ failed to read: %s'' []]) \<and>
   blz_char_write_fd_acquire example_headers quiet_env example_char [] =
     (- 1, [Log LOG_ERR ''BLZ characteristic does not support write-without-response'' []])"
  by code_simp

section \<open>The reply to ConnectDevice\<close>

text \<open>
  C5. Whatever reply reaches \<open>connect_new_cb\<close>, the handler stores its result code in
  \<open>connect_new_result\<close> and sets \<open>connect_new_done\<close>. The code is the negated errno of an
  error reply, the negative result of a failed read, -1 (a failure) when the path read
  differs from the handle's path although the remote call succeeded, and the result of
  the read when the paths agree.
\<close>

theorem connect_new_cb_stores_result:
  assumes "connect_new_cb reply dev tr = (r, dev1, tr1)"
  shows "connect_new_done dev1 \<and> connect_new_result dev1 = r \<and>
         (case reply of
            Method_error errno \<Rightarrow> r = - errno
          | Method_return rr opath \<Rightarrow>
              (rr < 0 \<longrightarrow> r = rr) \<and>
              (0 \<le> rr \<and> opath \<noteq> dev_path dev \<longrightarrow> r = - 1 \<and> r < 0) \<and>
              (0 \<le> rr \<and> opath = dev_path dev \<longrightarrow> r = rr))"
  using assms
  by (auto simp: connect_new_cb_def Let_def LOG_def split: bus_reply.splits if_splits)

theorem connect_new_cb_stores_result_witness:
  "connect_new_cb (Method_return 1 ''/org/bluez/hci0/dev_00_11_22_33_44_55'') example_dev [] =
     (- 1, example_dev\<lparr>connect_new_result := - 1, connect_new_done := True\<rparr>,
      [Log LOG_ERR ''BLZ connect new device paths don't match (%s %s)''
         [''/org/bluez/hci0/dev_00_11_22_33_44_55'', ''/org/bluez/hci0/dev_AA_BB_CC_DD_EE_FF'']]) \<and>
   connect_new_done (example_dev\<lparr>connect_new_result := - 1, connect_new_done := True\<rparr>) \<and>
   connect_new_result (example_dev\<lparr>connect_new_result := - 1, connect_new_done := True\<rparr>) = - 1"
proof -
  have run: "connect_new_cb (Method_return 1 ''/org/bluez/hci0/dev_00_11_22_33_44_55'') example_dev [] =
     (- 1, example_dev\<lparr>connect_new_result := - 1, connect_new_done := True\<rparr>,
      [Log LOG_ERR ''BLZ connect new device paths don't match (%s %s)''
         [''/org/bluez/hci0/dev_00_11_22_33_44_55'', ''/org/bluez/hci0/dev_AA_BB_CC_DD_EE_FF'']])"
    by (simp add: connect_new_cb_def LOG_def example_dev_def)
  from connect_new_cb_stores_result [OF run] run show ?thesis by simp
qed

section \<open>Reading a characteristic\<close>

lemma int_of_size_t_of_nat:
  assumes "L < 2 ^ 31"
  shows "int_of_size_t (of_nat L) = int L"
proof -
  have "(ucast (of_nat L :: 64 word) :: 32 word) = of_nat L"
    using assms
    by (intro word_unat_eq_iff [THEN iffD2])
       (simp add: unsigned_ucast_eq unat_of_nat take_bit_eq_mod)
  moreover have "sint (of_nat L :: 32 word) = int L"
    using assms by (simp add: signed_of_nat signed_take_bit_int_eq_self)
  ultimately show ?thesis by (simp add: int_of_size_t_def)
qed

text \<open>
  C6. When the characteristic has the read flag and the remote read succeeds,
  \<open>blz_char_read\<close> returns the number of bytes received from the remote (the whole
  length of the payload, also when it is larger than the buffer), and copies
  \<open>min(received, len)\<close> bytes, so at most \<open>len\<close>, to the start of the caller's buffer.
  The payload is shorter than \<open>2^31\<close> bytes (a D-Bus array holds at most 64 MiB), so its
  length fits the \<open>int\<close> result.
\<close>

theorem blz_char_read_returns_received_length:
  assumes "flags ch AND BLZ_CHAR_READ H \<noteq> 0"
      and "0 \<le> bus_ret E (length tr)" and "0 \<le> bus_ret E (Suc (length tr))"
      and "length (bus_bytes E (Suc (length tr))) < 2 ^ 31"
  shows "blz_char_read H E ch data len tr =
     (let payload = bus_bytes E (Suc (length tr)); n = min (length payload) (unat len)
      in (int (length payload), take n payload @ drop n data,
          tr @ [Sd_bus_call_method (ch_path ch) ''org.bluez.GattCharacteristic1'' ''ReadValue'',
                Sd_bus_message_read_array]))"
proof -
  define payload where "payload = bus_bytes E (Suc (length tr))"
  have L: "length payload < 2 ^ 31" using assms(4) by (simp add: payload_def)
  have u: "unat (of_nat (length payload) :: 64 word) = length payload"
    using L by (simp add: unat_of_nat)
  have lt: "((of_nat (length payload) :: 64 word) < len) = (length payload < unat len)"
    by (simp add: word_less_nat_alt u)
  have pos: "((0 :: 64 word) < of_nat (length payload)) = (0 < length payload)"
    using L by (simp add: word_less_nat_alt unat_of_nat)
  show ?thesis
    using assms(1-3) L
    unfolding blz_char_read_def sd_bus_call_method_def sd_bus_message_read_array_def Let_def
    by (simp add: payload_def [symmetric] int_of_size_t_of_nat lt u pos min_def)
qed

theorem blz_char_read_returns_received_length_witness:
  "flags (example_char\<lparr>flags := 2\<rparr>) AND BLZ_CHAR_READ example_headers \<noteq> 0 \<and>
   blz_char_read example_headers (quiet_env\<lparr>bus_bytes := (\<lambda>n. [1, 2, 3])\<rparr>)
       (example_char\<lparr>flags := 2\<rparr>) [9, 9] 2 [] =
     (3, [1, 2],
      [Sd_bus_call_method ''/org/bluez/hci0/dev_AA_BB_CC_DD_EE_FF/service0001/char0002''
         ''org.bluez.GattCharacteristic1'' ''ReadValue'',
       Sd_bus_message_read_array])"
  using blz_char_read_returns_received_length
          [of "example_char\<lparr>flags := 2\<rparr>" example_headers
              "quiet_env\<lparr>bus_bytes := (\<lambda>n. [1, 2, 3])\<rparr>" "[]" "[9, 9]" 2]
  by (simp add: example_char_def example_headers_def quiet_env_def)

section \<open>Disconnecting\<close>

lemma filter_free_strv_strings:
  "filter (is_free_strv which) (map Free_string xs) = []"
  by (induction xs) simp_all

lemma free_uuids_append:
  "free_uuids which l tr =
     tr @ (case l of Some xs \<Rightarrow> map Free_string xs | None \<Rightarrow> []) @ [Free_strv which l]"
  by (cases l) (simp_all add: free_uuids_def)

lemma blz_disconnect_trace:
  "blz_disconnect E Dev_ptr (Some dev, tr) = (Done (), None, tr @ disconnect_events E dev tr)"
proof (cases "connect_slot dev")
  case None
  then show ?thesis
    by (simp add: Let_def sd_bus_call_method_def LOG_def free_uuids_append free_dev_def
          disconnect_events_def)
next
  case (Some sl)
  then obtain p where "connect_slot dev = Some (Slot p)" by (cases sl) simp
  then show ?thesis
    by (simp add: Let_def sd_bus_call_method_def LOG_def free_uuids_append free_dev_def
          disconnect_events_def)
qed

lemma disconnect_frees_service_uuids_once:
  "length (filter (is_free_strv Service_uuids) (disconnect_events E dev tr)) = 1"
  by (simp add: disconnect_events_def filter_free_strv_strings
        split: option.split sd_bus_slot.split)

lemma disconnect_frees_char_uuids_once:
  "length (filter (is_free_strv Char_uuids) (disconnect_events E dev tr)) = 1"
  by (simp add: disconnect_events_def filter_free_strv_strings
        split: option.split sd_bus_slot.split)

text \<open>
  C8. On every live device handle \<open>blz_disconnect\<close> runs to its end: it releases the
  PropertiesChanged slot only if the handle still holds one, always issues the remote
  Disconnect call, logs a failure of that call without returning it, then frees the
  strings of each cached UUID list, calls \<open>free\<close> exactly once on the service list and
  exactly once on the characteristic list (on NULL when the list was never populated),
  and frees the handle.
\<close>

theorem blz_disconnect_always_cleans_up:
  "blz_disconnect E Dev_ptr (Some dev, tr) =
     (Done (), None,
      tr @ (case connect_slot dev of Some (Slot p) \<Rightarrow> [Sd_bus_slot_unref p] | None \<Rightarrow> [])
         @ [Sd_bus_call_method (dev_path dev) ''org.bluez.Device1'' ''Disconnect'']
         @ (if bus_ret E (length tr + (case connect_slot dev of Some s \<Rightarrow> 1 | None \<Rightarrow> 0)) < 0
            then [Log LOG_ERR ''BLZ failed to disconnect: %s'' []] else [])
         @ (case service_uuids dev of Some xs \<Rightarrow> map Free_string xs | None \<Rightarrow> [])
         @ [Free_strv Service_uuids (service_uuids dev)]
         @ (case char_uuids dev of Some xs \<Rightarrow> map Free_string xs | None \<Rightarrow> [])
         @ [Free_strv Char_uuids (char_uuids dev)]
         @ [Free_dev]) \<and>
   length (filter (is_free_strv Service_uuids)
             (drop (length tr) (snd (snd (blz_disconnect E Dev_ptr (Some dev, tr)))))) = 1 \<and>
   length (filter (is_free_strv Char_uuids)
             (drop (length tr) (snd (snd (blz_disconnect E Dev_ptr (Some dev, tr)))))) = 1"
proof (intro conjI)
  show "blz_disconnect E Dev_ptr (Some dev, tr) =
     (Done (), None,
      tr @ (case connect_slot dev of Some (Slot p) \<Rightarrow> [Sd_bus_slot_unref p] | None \<Rightarrow> [])
         @ [Sd_bus_call_method (dev_path dev) ''org.bluez.Device1'' ''Disconnect'']
         @ (if bus_ret E (length tr + (case connect_slot dev of Some s \<Rightarrow> 1 | None \<Rightarrow> 0)) < 0
            then [Log LOG_ERR ''BLZ failed to disconnect: %s'' []] else [])
         @ (case service_uuids dev of Some xs \<Rightarrow> map Free_string xs | None \<Rightarrow> [])
         @ [Free_strv Service_uuids (service_uuids dev)]
         @ (case char_uuids dev of Some xs \<Rightarrow> map Free_string xs | None \<Rightarrow> [])
         @ [Free_strv Char_uuids (char_uuids dev)]
         @ [Free_dev])"
    unfolding blz_disconnect_trace disconnect_events_def by (rule refl)
  show "length (filter (is_free_strv Service_uuids)
             (drop (length tr) (snd (snd (blz_disconnect E Dev_ptr (Some dev, tr)))))) = 1"
    unfolding blz_disconnect_trace by (simp add: disconnect_frees_service_uuids_once)
  show "length (filter (is_free_strv Char_uuids)
             (drop (length tr) (snd (snd (blz_disconnect E Dev_ptr (Some dev, tr)))))) = 1"
    unfolding blz_disconnect_trace by (simp add: disconnect_frees_char_uuids_once)
qed

section \<open>The deadline of the wait loop\<close>

lemma wrap_not_less:
  fixes e t :: "32 word"
  assumes "2 ^ 32 \<le> unat e + unat t"
  shows "\<not> e < e + t"
proof -
  have t: "unat t < 2 ^ 32" using unsigned_less [of t] by simp
  have e: "unat e < 2 ^ 32" using unsigned_less [of e] by simp
  have "unat (e + t) = (unat e + unat t) mod 2 ^ 32"
    by (simp add: unat_word_ariths)
  also have "\<dots> = unat e + unat t - 2 ^ 32"
    using assms t e by (simp add: mod_if)
  finally have "unat (e + t) < unat e" using assms t by simp
  then show ?thesis by (simp add: word_less_nat_alt)
qed

text \<open>When the loop condition is false at entry, the clock has been read once and
  nothing else has happened: no \<open>sd_bus_process\<close>, no \<open>sd_bus_wait\<close>.\<close>

lemma blz_loop_timeout_no_iteration:
  assumes "check s \<or> \<not> timespec_ms (clock_now E (length tr))
                         < timespec_ms (clock_now E (length tr)) + timeout_ms"
  shows "blz_loop_timeout fuel E deliver check timeout_ms (s, tr) =
     (Done (if check s then 0 else - 1), s, tr @ [Clock_gettime (clock_now E (length tr))])"
  using assms
  by (cases fuel) (auto simp add: blz_loop_timeout_def clock_gettime_def Let_def)

lemma late_clock_ms: "timespec_ms \<lparr>tv_sec = 4294967, tv_nsec = 295000000\<rparr> = 4294967295"
  by (simp add: timespec_ms_def signed_divide_int_def)

text \<open>The wait loop of the source computes exactly what the description modulo
  \<open>2^32\<close> says, on every input: the millisecond reading, the comparison that guards the
  loop, the deadline and the microseconds handed to each wait.\<close>

lemma unat_timespec_ms: "unat (timespec_ms ts) = monotonic_ms_mod_2_32 ts"
proof -
  have "uint (timespec_ms ts) = (sint (tv_sec ts) * 1000 + sint (tv_nsec ts) sdiv 1000000) mod 2 ^ 32"
    unfolding timespec_ms_def uint_word_of_int by simp
  then show ?thesis by (simp add: monotonic_ms_mod_2_32_def unat_eq_nat_uint)
qed

lemma wait_budget_mod_2_32:
  fixes end_ms cur :: "32 word"
  assumes "cur < end_ms"
  shows "(ucast ((end_ms - cur) * 1000) :: 64 word) =
           of_nat ((unat end_ms - unat cur) * 1000 mod 2 ^ 32)"
proof -
  have le: "unat cur \<le> unat end_ms" using assms by (simp add: word_less_nat_alt)
  have "cur \<le> end_ms" using assms by simp
  then have sub: "unat (end_ms - cur) = unat end_ms - unat cur" by (rule unat_sub)
  have "unat ((end_ms - cur) * 1000) = (unat end_ms - unat cur) * 1000 mod 2 ^ 32"
    by (simp add: unat_word_ariths sub del: left_diff_distrib_numeral)
  moreover have "(ucast ((end_ms - cur) * 1000) :: 64 word) = of_nat (unat ((end_ms - cur) * 1000))"
    by simp
  ultimately show ?thesis by simp
qed

lemma blz_loop_timeout_while_mod_2_32:
  "blz_loop_timeout_while fuel E deliver check end_ms cur (s, tr) =
     wait_loop_mod_2_32 fuel E deliver check (unat end_ms) (unat cur) (s, tr)"
proof (induction fuel arbitrary: cur s tr)
  case 0
  show ?case by (simp add: word_less_nat_alt)
next
  case (Suc fuel)
  show ?case
  proof (cases "\<not> check s \<and> cur < end_ms")
    case False
    then show ?thesis by (auto simp: word_less_nat_alt)
  next
    case True
    then have lt: "cur < end_ms" and nat_lt: "unat cur < unat end_ms"
      by (simp_all add: word_less_nat_alt)
    show ?thesis
      using True nat_lt
      by (simp add: wait_budget_mod_2_32 [OF lt] Suc.IH unat_timespec_ms split_beta Let_def
            clock_gettime_def del: of_nat_mult of_nat_diff left_diff_distrib_numeral)
  qed
qed

lemma blz_loop_timeout_is_mod_2_32:
  "blz_loop_timeout fuel E deliver check timeout_ms st =
     blz_loop_timeout_mod_2_32 fuel E deliver check (unat timeout_ms) st"
proof -
  have "unat (timespec_ms ts + timeout_ms) = (monotonic_ms_mod_2_32 ts + unat timeout_ms) mod 2 ^ 32"
    for ts
    by (simp add: unat_word_ariths unat_timespec_ms)
  then show ?thesis
    by (simp add: blz_loop_timeout_def blz_loop_timeout_mod_2_32_def clock_gettime_def Let_def
          blz_loop_timeout_while_mod_2_32 unat_timespec_ms)
qed

text \<open>
  C9. All deadline arithmetic of \<open>blz_loop_timeout\<close> is arithmetic modulo \<open>2^32\<close> on
  milliseconds: the function is equal to the wait in which the entry time is the clock's
  millisecond count modulo \<open>2^32\<close> and the deadline is entry time plus timeout modulo
  \<open>2^32\<close>. So whenever the sum of entry time and timeout reaches \<open>2^32\<close>, the entry time
  is not below the deadline, the loop body never runs (the trace gains the one clock
  reading only), and the function returns -1 at once, or 0 if the flag was already set.
\<close>

theorem deadline_wraps_modulo_2_32:
  "blz_loop_timeout fuel E deliver check timeout_ms (s, tr) =
     blz_loop_timeout_mod_2_32 fuel E deliver check (unat timeout_ms) (s, tr) \<and>
   (2 ^ 32 \<le> monotonic_ms_mod_2_32 (clock_now E (length tr)) + unat timeout_ms \<longrightarrow>
      \<not> monotonic_ms_mod_2_32 (clock_now E (length tr))
          < (monotonic_ms_mod_2_32 (clock_now E (length tr)) + unat timeout_ms) mod 2 ^ 32 \<and>
      blz_loop_timeout fuel E deliver check timeout_ms (s, tr) =
        (Done (if check s then 0 else - 1), s,
         tr @ [Clock_gettime (clock_now E (length tr))]))"
proof (intro conjI impI)
  show "blz_loop_timeout fuel E deliver check timeout_ms (s, tr) =
          blz_loop_timeout_mod_2_32 fuel E deliver check (unat timeout_ms) (s, tr)"
    by (rule blz_loop_timeout_is_mod_2_32)
next
  let ?e = "timespec_ms (clock_now E (length tr))"
  assume "2 ^ 32 \<le> monotonic_ms_mod_2_32 (clock_now E (length tr)) + unat timeout_ms"
  then have w: "2 ^ 32 \<le> unat ?e + unat timeout_ms" by (simp add: unat_timespec_ms)
  then have nl: "\<not> ?e < ?e + timeout_ms" by (rule wrap_not_less)
  then show "\<not> monotonic_ms_mod_2_32 (clock_now E (length tr))
          < (monotonic_ms_mod_2_32 (clock_now E (length tr)) + unat timeout_ms) mod 2 ^ 32"
    by (simp add: word_less_nat_alt unat_word_ariths unat_timespec_ms)
  from nl show "blz_loop_timeout fuel E deliver check timeout_ms (s, tr) =
        (Done (if check s then 0 else - 1), s,
         tr @ [Clock_gettime (clock_now E (length tr))])"
    by (simp add: blz_loop_timeout_no_iteration)
qed

theorem deadline_wraps_modulo_2_32_witness:
  "(2::nat) ^ 32 \<le> monotonic_ms_mod_2_32 (clock_now late_clock_env (length ([]::event list)))
                    + unat (1000 :: 32 word) \<and>
   blz_loop_timeout 50 late_clock_env deliver_dev services_resolved 1000 (example_dev, []) =
     (Done (- 1), example_dev, [Clock_gettime \<lparr>tv_sec = 4294967, tv_nsec = 295000000\<rparr>])"
proof -
  have h: "(2::nat) ^ 32 \<le> monotonic_ms_mod_2_32 (clock_now late_clock_env (length ([]::event list)))
                    + unat (1000 :: 32 word)"
    by (simp add: late_clock_env_def quiet_env_def monotonic_ms_mod_2_32_def
          signed_divide_int_def)
  note run = deadline_wraps_modulo_2_32
         [of 50 late_clock_env deliver_dev services_resolved 1000 example_dev "[]",
          THEN conjunct2, rule_format, OF h, THEN conjunct2]
  have "blz_loop_timeout 50 late_clock_env deliver_dev services_resolved 1000 (example_dev, []) =
     (Done (- 1), example_dev, [Clock_gettime \<lparr>tv_sec = 4294967, tv_nsec = 295000000\<rparr>])"
    unfolding run by (simp add: late_clock_env_def quiet_env_def example_dev_def)
  with h show ?thesis by (rule conjI [rotated, rotated])
qed

text \<open>What holds on every run of the wait loop. In 32-bit terms a timeout is never
  returned before the deadline: when \<open>blz_loop_timeout\<close> returns -1, the last event of
  the trace is a clock reading whose millisecond value is not below \<open>end_ms\<close>. When
  entry time plus timeout stays below \<open>2^32\<close>, that is a bound in real time as well, for
  a clock that does not go back (\<open>no_wrap_elapsed\<close>, on the unreduced millisecond
  counts).\<close>

lemma blz_loop_timeout_while_deadline:
  assumes "blz_loop_timeout_while fuel E deliver check end_ms cur (s, tr @ [Clock_gettime ts0]) =
             (False, s1, tr1)"
      and "\<not> check s1" and "cur = timespec_ms ts0"
  shows "\<exists>ts tr0. tr1 = tr0 @ [Clock_gettime ts] \<and> end_ms \<le> timespec_ms ts"
  using assms
proof (induction fuel arbitrary: cur s tr ts0)
  case 0
  then show ?case by (auto simp: not_less)
next
  case (Suc fuel)
  show ?case
  proof (cases "\<not> check s \<and> cur < end_ms")
    case False
    then have "blz_loop_timeout_while (Suc fuel) E deliver check end_ms cur
                 (s, tr @ [Clock_gettime ts0]) = (False, s, tr @ [Clock_gettime ts0])"
      by auto
    then have "s1 = s" "tr1 = tr @ [Clock_gettime ts0]" using Suc.prems(1) by simp_all
    moreover from this False Suc.prems(2) have "end_ms \<le> cur" by (simp add: not_less)
    ultimately show ?thesis using Suc.prems(3) by auto
  next
    case True
    define st1 where "st1 = blz_loop E deliver (ucast ((end_ms - cur) * 1000)) (s, tr @ [Clock_gettime ts0])"
    define ts where "ts = clock_now E (length (snd st1))"
    have "blz_loop_timeout_while fuel E deliver check end_ms (timespec_ms ts)
            (fst st1, snd st1 @ [Clock_gettime ts]) = (False, s1, tr1)"
      using Suc.prems(1) True unfolding st1_def ts_def
      by (simp add: clock_gettime_def Let_def split_beta)
    from Suc.IH [OF this Suc.prems(2)] show ?thesis by simp
  qed
qed

lemma blz_loop_timeout_not_before_deadline:
  assumes "blz_loop_timeout fuel E deliver check timeout_ms (s, tr) = (Done r, s1, tr1)"
      and "r < 0"
  shows "\<exists>ts tr0. tr1 = tr0 @ [Clock_gettime ts] \<and>
           timespec_ms (clock_now E (length tr)) + timeout_ms \<le> timespec_ms ts"
proof -
  let ?ts0 = "clock_now E (length tr)"
  obtain running s2 tr2 where
    w: "blz_loop_timeout_while fuel E deliver check (timespec_ms ?ts0 + timeout_ms)
          (timespec_ms ?ts0) (s, tr @ [Clock_gettime ?ts0]) = (running, s2, tr2)"
    using prod_cases3 by blast
  have res: "blz_loop_timeout fuel E deliver check timeout_ms (s, tr) =
          (if running then (Out_of_fuel, s2, tr2)
           else (Done (if check s2 then 0 else - 1), s2, tr2))"
    using w by (simp add: blz_loop_timeout_def clock_gettime_def Let_def)
  have "\<not> running" "s2 = s1" "tr2 = tr1" "\<not> check s1"
    using assms res by (auto split: if_splits)
  then show ?thesis
    using blz_loop_timeout_while_deadline [of fuel E deliver check _ _ s tr ?ts0 s1 tr1] w
    by simp
qed

lemma no_wrap_elapsed:
  fixes T0 T1 t :: nat
  assumes "T0 \<le> T1" and "T0 mod 2 ^ 32 + t < 2 ^ 32"
      and "T0 mod 2 ^ 32 + t \<le> T1 mod 2 ^ 32"
  shows "T0 + t \<le> T1"
proof (rule ccontr)
  assume "\<not> T0 + t \<le> T1"
  then have lt: "T1 < T0 + t" by simp
  define q where "q = T0 div 2 ^ 32"
  define e where "e = T0 mod 2 ^ 32"
  have T0: "T0 = q * 2 ^ 32 + e" by (simp add: q_def e_def)
  obtain d where d: "T1 = T0 + d" "d < t" using assms(1) lt by (metis le_Suc_ex nat_add_left_cancel_less)
  have "e + d < 2 ^ 32" using assms(2) d(2) by (simp add: e_def)
  then have "T1 mod 2 ^ 32 = e + d"
    using d(1) T0 by (simp add: add.assoc)
  then show False using assms(3) d(2) by (simp add: e_def)
qed

text \<open>When the millisecond count wraps during the wait, the budget of the next wait is
  not the time left. With a timeout of 295 ms entered at 4294967.000 s, the deadline is
  \<open>2^32 - 1\<close>; the first wait is given 295000 microseconds; the clock then reads
  4294967.296 s, which is 0 modulo \<open>2^32\<close> and below the deadline, so the loop goes on
  although 296 ms have passed, and the second wait is given
  \<open>(2^32 - 1) * 1000 mod 2^32 = 4294966296\<close> microseconds.\<close>

lemma blz_loop_timeout_wait_after_wrap:
  "blz_loop_timeout 2 wrapping_clock_env deliver_dev services_resolved 295 (example_dev, []) =
     (Out_of_fuel, example_dev,
      [Clock_gettime \<lparr>tv_sec = 4294967, tv_nsec = 0\<rparr>,
       Sd_bus_process, Sd_bus_wait 295000,
       Clock_gettime \<lparr>tv_sec = 4294967, tv_nsec = 296000000\<rparr>,
       Sd_bus_process, Sd_bus_wait 4294966296,
       Clock_gettime \<lparr>tv_sec = 4294967, tv_nsec = 296000000\<rparr>])"
  by code_simp

text \<open>
  C2. The clock reads 4294967.295 s at entry, the timeout is 1000 ms and the flag is
  never set. \<open>blz_loop_timeout\<close> returns -1 after the one clock reading at entry: no
  \<open>sd_bus_process\<close>, no \<open>sd_bus_wait\<close>, and no time waited, although the deadline, entry
  time plus timeout, lies one second ahead.
\<close>

theorem blz_loop_timeout_early_timeout:
  "blz_loop_timeout 50 late_clock_env deliver_dev services_resolved 1000 (example_dev, []) =
     (Done (- 1), example_dev, [Clock_gettime \<lparr>tv_sec = 4294967, tv_nsec = 295000000\<rparr>])"
  by (simp add: blz_loop_timeout_no_iteration late_clock_env_def quiet_env_def late_clock_ms
        example_dev_def)

section \<open>Traces only grow\<close>

text \<open>Every function extends the trace it is given. The wait loop adds wait events
  only, whatever is dispatched to the callbacks of a device handle.\<close>

lemma extends_byI: "list_all P ys \<Longrightarrow> extends_by P tr (tr @ ys)"
  by (simp add: extends_by_def)

lemma extends_byE: "extends_by P tr tr1 \<Longrightarrow> \<exists>ys. tr1 = tr @ ys \<and> list_all P ys"
  by (metis append_take_drop_id extends_by_def)

lemma extends_by_refl: "extends_by P tr tr"
  by (simp add: extends_by_def)

lemma extends_by_trans:
  "extends_by P tr tr1 \<Longrightarrow> extends_by P tr1 tr2 \<Longrightarrow> extends_by P tr tr2"
proof -
  assume a: "extends_by P tr tr1" and b: "extends_by P tr1 tr2"
  from extends_byE [OF a] obtain ys where ys: "tr1 = tr @ ys" "list_all P ys" by blast
  from extends_byE [OF b] obtain zs where zs: "tr2 = tr1 @ zs" "list_all P zs" by blast
  have "tr2 = tr @ (ys @ zs)" using ys zs by simp
  moreover have "list_all P (ys @ zs)" using ys zs by simp
  ultimately show ?thesis using extends_byI by metis
qed

lemma extends_by_append:
  "extends_by P tr tr1 \<Longrightarrow> list_all P ys \<Longrightarrow> extends_by P tr (tr1 @ ys)"
  by (rule extends_by_trans [where ?tr1.0 = tr1]) (simp_all add: extends_by_def)

lemma extends_by_snoc: "extends_by P tr tr1 \<Longrightarrow> P e \<Longrightarrow> extends_by P tr (tr1 @ [e])"
  by (rule extends_by_append) simp_all

lemma extends_by_mono:
  "extends_by P tr tr1 \<Longrightarrow> (\<And>e. P e \<Longrightarrow> Q e) \<Longrightarrow> extends_by Q tr tr1"
  by (auto simp: extends_by_def list_all_iff)

lemma extends_by_any: "extends_by P tr tr1 \<Longrightarrow> extends_by any_event tr tr1"
  by (rule extends_by_mono) (simp_all add: any_event_def)

lemma deliver_dev_extends: "extends_by is_wait_event (snd st) (snd (deliver_dev d st))"
proof (cases st)
  case (Pair dev tr)
  show ?thesis
  proof (cases d)
    case (Connect_new_reply reply)
    then show ?thesis using Pair
      by (cases reply) (auto simp: connect_new_cb_def LOG_def extends_by_def Let_def)
  next
    case (Device_properties_changed m)
    then show ?thesis using Pair by (simp add: extends_by_def)
  next
    case (Char_properties_changed m v)
    then show ?thesis using Pair by (simp add: extends_by_def)
  qed
qed

lemma foldl_deliver_extends:
  assumes "\<And>d st. extends_by P (snd st) (snd (deliver d st))"
  shows "extends_by P (snd st) (snd (foldl (\<lambda>acc d. deliver d acc) st ds))"
proof (induction ds arbitrary: st)
  case Nil
  show ?case by (simp add: extends_by_refl)
next
  case (Cons d ds)
  have "extends_by P (snd st) (snd (deliver d st))" by (rule assms)
  moreover have "extends_by P (snd (deliver d st)) (snd (foldl (\<lambda>acc d. deliver d acc) (deliver d st) ds))"
    by (rule Cons.IH)
  ultimately show ?case by (simp add: extends_by_trans [where ?tr1.0 = "snd (deliver d st)"])
qed

lemma blz_loop_extends:
  assumes dl: "\<And>d st. extends_by is_wait_event (snd st) (snd (deliver d st))"
  shows "extends_by is_wait_event (snd st) (snd (blz_loop E deliver us st))"
proof -
  define st1 where "st1 = foldl (\<lambda>acc d. deliver d acc) (fst st, snd st @ [Sd_bus_process])
                        (bus_dispatch E (length (snd st)))"
  have a: "extends_by is_wait_event (snd st) (snd st @ [Sd_bus_process])"
    by (simp add: extends_by_def)
  have "extends_by is_wait_event (snd (fst st, snd st @ [Sd_bus_process])) (snd st1)"
    unfolding st1_def by (rule foldl_deliver_extends) (rule dl)
  then have b: "extends_by is_wait_event (snd st) (snd st1)"
    using a extends_by_trans by fastforce
  have c: "blz_loop E deliver us st =
      (let r = bus_ret E (length (snd st)) in
       if r < 0 then (fst st1, LOG LOG_ERR ''BLZ loop process error: %s'' [] (snd st1))
         else if r > 0 then (fst st1, snd st1)
         else let r2 = bus_ret E (length (snd st1));
                  tr2 = snd st1 @ [Sd_bus_wait us]
              in if r2 < 0 \<and> - r2 \<noteq> EINTR
                 then (fst st1, LOG LOG_ERR ''BLZ loop wait error: %s'' [] tr2)
                 else (fst st1, tr2))"
    by (simp add: blz_loop_def st1_def [symmetric] Let_def split_beta)
  show ?thesis
    unfolding c Let_def LOG_def
    by (auto intro!: extends_by_append b)
qed

lemma blz_loop_timeout_while_extends:
  assumes dl: "\<And>d st. extends_by is_wait_event (snd st) (snd (deliver d st))"
  shows "extends_by is_wait_event tr
           (snd (snd (blz_loop_timeout_while fuel E deliver check end_ms cur (s, tr))))"
proof (induction fuel arbitrary: cur s tr)
  case 0
  show ?case by (simp add: extends_by_refl)
next
  case (Suc fuel)
  show ?case
  proof (cases "\<not> check s \<and> cur < end_ms")
    case False
    then show ?thesis by (auto simp: extends_by_refl)
  next
    case True
    define st1 where "st1 = blz_loop E deliver (ucast ((end_ms - cur) * 1000)) (s, tr)"
    have a: "extends_by is_wait_event tr (snd st1)"
      using blz_loop_extends [OF dl, of "(s, tr)"] by (simp add: st1_def)
    have b: "extends_by is_wait_event tr (snd st1 @ [Clock_gettime (clock_now E (length (snd st1)))])"
      by (rule extends_by_snoc [OF a]) simp
    have "blz_loop_timeout_while (Suc fuel) E deliver check end_ms cur (s, tr) =
          blz_loop_timeout_while fuel E deliver check end_ms
            (timespec_ms (clock_now E (length (snd st1))))
            (fst st1, snd st1 @ [Clock_gettime (clock_now E (length (snd st1)))])"
      using True unfolding st1_def by (simp add: clock_gettime_def Let_def split_beta)
    then show ?thesis
      using extends_by_trans [OF b Suc.IH] by simp
  qed
qed

lemma blz_loop_timeout_extends:
  assumes dl: "\<And>d st. extends_by is_wait_event (snd st) (snd (deliver d st))"
  shows "extends_by is_wait_event (snd st)
           (snd (snd (blz_loop_timeout fuel E deliver check timeout_ms st)))"
proof -
  have a: "extends_by is_wait_event (snd st) (snd st @ [Clock_gettime (clock_now E (length (snd st)))])"
    by (simp add: extends_by_def)
  show ?thesis
    unfolding blz_loop_timeout_def clock_gettime_def Let_def split_beta
    using extends_by_trans [OF a blz_loop_timeout_while_extends [OF dl]]
    by (simp add: split_beta)
qed

lemma wait_event_no_attempt: "is_wait_event e \<Longrightarrow> no_attempt e"
  by (cases e) (auto simp: no_attempt_def)

lemma connect_new_attempts_append [simp]:
  "connect_new_attempts (xs @ ys) = connect_new_attempts xs @ connect_new_attempts ys"
  by (simp add: connect_new_attempts_def)

lemma connect_device_types_append [simp]:
  "connect_device_types (xs @ ys) = connect_device_types xs @ connect_device_types ys"
  by (simp add: connect_device_types_def)

lemma connect_new_attempts_Cons [simp]:
  "connect_new_attempts [] = []"
  "connect_new_attempts (e # es) = attempt_of e @ connect_new_attempts es"
  by (simp_all add: connect_new_attempts_def)

lemma connect_device_types_Cons [simp]:
  "connect_device_types [] = []"
  "connect_device_types (e # es) = address_type_sent e @ connect_device_types es"
  by (simp_all add: connect_device_types_def)

lemma no_attempts_list: "list_all no_attempt ys \<Longrightarrow> connect_new_attempts ys = []"
  by (induction ys) (simp_all add: no_attempt_def)

lemma no_sends_list: "list_all no_attempt ys \<Longrightarrow> connect_device_types ys = []"
  by (induction ys) (simp_all add: no_attempt_def)

lemma extends_by_no_attempt:
  "extends_by no_attempt tr tr1 \<Longrightarrow> connect_new_attempts tr1 = connect_new_attempts tr"
  by (auto dest!: extends_byE simp: no_attempts_list)

lemma extends_by_no_send:
  "extends_by no_attempt tr tr1 \<Longrightarrow> connect_device_types tr1 = connect_device_types tr"
  by (auto dest!: extends_byE simp: no_sends_list)



lemma loop_dev_no_attempt:
  "extends_by no_attempt (snd st)
     (snd (snd (blz_loop_timeout fuel E deliver_dev check timeout_ms st)))"
  by (rule extends_by_mono [OF blz_loop_timeout_extends [OF deliver_dev_extends]])
     (rule wait_event_no_attempt)

lemma no_attempt_simps [simp]:
  "no_attempt (Log LOG_ERR fmt args)" "no_attempt (Log LOG_NOTI fmt args)"
  "no_attempt (Sd_bus_call_method p i m)" "no_attempt Free_dev"
  "no_attempt (Sd_bus_slot_unref p)" "no_attempt (Free_string x)" "no_attempt (Free_strv k l)"
  "no_attempt (Sd_bus_message_new_method_call p i m)" "no_attempt Sd_bus_message_open_container"
  "no_attempt (Msg_append_property n v)" "no_attempt Sd_bus_message_close_container"
  "no_attempt Calloc"
  "no_attempt (Sd_bus_get_property_trivial p i m)" "no_attempt (Sd_bus_match_signal p i m)"
  by (simp_all add: no_attempt_def)

lemma blz_connect_known_extends:
  "extends_by no_attempt tr (snd (blz_connect_known E dev tr))"
  by (simp add: blz_connect_known_def sd_bus_call_method_def LOG_def extends_by_def)

lemma list_all_free_strings: "list_all no_attempt (map Free_string xs)"
  by (induction xs) simp_all

lemma blz_disconnect_extends:
  "extends_by no_attempt tr (snd (snd (blz_disconnect E Dev_ptr (Some dev, tr))))"
  unfolding blz_disconnect_trace
  by (auto simp: extends_by_def disconnect_events_def list_all_free_strings
           split: option.split sd_bus_slot.split)

lemma blz_connect_exit_extends:
  "extends_by no_attempt tr (snd (snd (blz_connect_exit r (h, tr))))"
  by (cases h) (simp_all add: blz_connect_exit_def free_dev_def extends_by_def)

lemma blz_connect_wait_extends:
  "extends_by no_attempt (snd st) (snd (snd (blz_connect_wait fuel E cb st)))"
proof -
  obtain out dev1 tr1 where
    res: "blz_loop_timeout fuel E deliver_dev services_resolved 30000 st = (out, dev1, tr1)"
    by (cases "blz_loop_timeout fuel E deliver_dev services_resolved 30000 st") auto
  have a: "extends_by no_attempt (snd st) tr1"
    using loop_dev_no_attempt [of st fuel E services_resolved 30000] res by simp
  show ?thesis
  proof (cases out)
    case (Done r)
    show ?thesis
    proof (cases "r < 0")
      case True
      let ?tr2 = "LOG LOG_ERR ''BLZ timeout waiting for ServicesResolved'' [] tr1"
      have b: "extends_by no_attempt (snd st) ?tr2"
        unfolding LOG_def by (rule extends_by_snoc [OF a]) simp
      have c: "extends_by no_attempt ?tr2 (?tr2 @ disconnect_events E dev1 ?tr2)"
        using blz_disconnect_extends [of ?tr2 E dev1] unfolding blz_disconnect_trace by simp
      have d: "extends_by no_attempt (?tr2 @ disconnect_events E dev1 ?tr2)
                 (snd (snd (blz_connect_exit r (None, ?tr2 @ disconnect_events E dev1 ?tr2))))"
        by (rule blz_connect_exit_extends)
      have "blz_connect_wait fuel E cb st =
              blz_connect_exit r (None, ?tr2 @ disconnect_events E dev1 ?tr2)"
        using res Done True
        by (simp add: blz_connect_wait_def blz_disconnect_trace del: blz_disconnect.simps)
      then show ?thesis
        using extends_by_trans [OF extends_by_trans [OF b c] d] by simp
    next
      case False
      have "blz_connect_wait fuel E cb st =
              blz_connect_exit r (Some (dev1\<lparr>connected := True, disconnect_cb := cb\<rparr>), tr1)"
        using res Done False by (simp add: blz_connect_wait_def)
      then show ?thesis
        using extends_by_trans [OF a blz_connect_exit_extends] by simp
    qed
  next
    case Out_of_fuel
    then show ?thesis using res a by (simp add: blz_connect_wait_def)
  next
    case (Faulted f)
    then show ?thesis using res a by (simp add: blz_connect_wait_def)
  qed
qed

text \<open>An address-based attempt extends the trace by its log line, by the calls that build
  the message and, if all of them succeed, by one ConnectDevice call carrying the
  attempt's address type; what follows that call opens no attempt and issues no call.\<close>

lemma blz_connect_new_measures:
  "connect_new_attempts (snd (snd (blz_connect_new H fuel E macstr b st))) =
     connect_new_attempts (snd st) @ [if b then ''public'' else ''random''] \<and>
   connect_device_types (snd (snd (blz_connect_new H fuel E macstr b st))) =
     connect_device_types (snd st) @
       issued_by_attempt E (if b then ''public'' else ''random'') (snd st) \<and>
   extends_by any_event (snd st) (snd (snd (blz_connect_new H fuel E macstr b st)))"
proof -
  note defs = blz_connect_new_def Let_def split_beta LOG_def
      sd_bus_message_new_method_call_def sd_bus_message_open_container_def
      msg_append_property_def sd_bus_message_close_container_def sd_bus_call_async_def
      issued_by_attempt_def message_built_def extends_by_def any_event_def
  show ?thesis
  proof (cases "bus_ret E (Suc (length (snd st))) < 0")
    case True
    then show ?thesis  by (simp add: defs)
  next
    case c1: False
    show ?thesis
    proof (cases "bus_ret E (Suc (Suc (length (snd st)))) < 0")
      case True
      then show ?thesis using c1 by (simp add: defs)
    next
      case c2: False
      show ?thesis
      proof (cases "bus_ret E (Suc (Suc (Suc (length (snd st))))) < 0")
        case True
        then show ?thesis using c1 c2 by (simp add: defs)
      next
        case c3: False
        show ?thesis
        proof (cases "bus_ret E (Suc (Suc (Suc (Suc (length (snd st)))))) < 0")
          case True
          then show ?thesis using c1 c2 c3 by (simp add: defs)
        next
          case c4: False
          show ?thesis
          proof (cases "bus_ret E (Suc (Suc (Suc (Suc (Suc (length (snd st))))))) < 0")
            case True
            then show ?thesis using c1 c2 c3 c4 by (simp add: defs)
          next
            case c5: False
            show ?thesis
            proof -
              define ty where "ty = (if b then ''public'' else ''random'')"
              define tr6 where "tr6 = snd st @ Log LOG_INF ''Connect new to %s (%s)'' [macstr, ty] #
                    [Sd_bus_message_new_method_call (ctx_path (dev_ctx (fst st))) ''org.bluez.Adapter1'' ''ConnectDevice'',
                     Sd_bus_message_open_container, Msg_append_property ''Address'' macstr,
                     Msg_append_property ''AddressType'' ty,
                     Sd_bus_message_close_container,
                     Sd_bus_call_async
                       \<lparr>msg_path = ctx_path (dev_ctx (fst st)), msg_interface = ''org.bluez.Adapter1'',
                          msg_member = ''ConnectDevice'',
                          msg_props = [(''Address'', macstr), (''AddressType'', ty)],
                          msg_array = []\<rparr>
                       (word_of_int (CONNECT_NEW_TIMEOUT H * 1000000))]"
              have built: "message_built E (snd st)"
                using c1 c2 c3 c4 c5 by (simp add: message_built_def)
              have m6: "connect_new_attempts tr6 = connect_new_attempts (snd st) @ [ty]"
                       "connect_device_types tr6 = connect_device_types (snd st) @ [ty]"
                       "extends_by any_event (snd st) tr6"
                by (simp_all add: tr6_def extends_by_def any_event_def)
              have goal: ?thesis
                if "extends_by no_attempt tr6 (snd (snd (blz_connect_new H fuel E macstr b st)))"
                using that m6 built extends_by_no_attempt [OF that] extends_by_no_send [OF that]
                      extends_by_trans [OF m6(3) extends_by_any [OF that]]
                by (simp add: issued_by_attempt_def ty_def)
              show ?thesis
              proof (cases "bus_ret E (Suc (Suc (Suc (Suc (Suc (Suc (length (snd st)))))))) < 0")
                case True
                have "snd (snd (blz_connect_new H fuel E macstr b st)) =
                        tr6 @ [Log LOG_ERR ''BLZ connect new failed: %s'' []]"
                  using c1 c2 c3 c4 c5 True
                  by (simp add: blz_connect_new_def Let_def split_beta LOG_def
                        sd_bus_message_new_method_call_def sd_bus_message_open_container_def
                        msg_append_property_def sd_bus_message_close_container_def sd_bus_call_async_def
                        tr6_def ty_def)
                then show ?thesis by (intro goal) (simp add: extends_by_def)
              next
                case c6: False
                define st6 where "st6 = (fst st\<lparr>connect_new_done := False\<rparr>, tr6)"
                obtain out dev7 tr7 where
                  loop: "blz_loop_timeout fuel E deliver_dev connect_new_done
                            (word_of_int (CONNECT_NEW_TIMEOUT H * 1000)) st6 = (out, dev7, tr7)"
                  using prod_cases3 by blast
                have eq: "blz_connect_new H fuel E macstr b st =
                   (case (out, dev7, tr7) of
                       (Done r7, dev7, tr7) \<Rightarrow>
                         if r7 < 0 then (Done r7, dev7, LOG LOG_ERR ''BLZ connect new timeout'' [] tr7)
                         else (Done (connect_new_result dev7), dev7, tr7)
                     | (Out_of_fuel, dev7, tr7) \<Rightarrow> (Out_of_fuel, dev7, tr7)
                     | (Faulted f, dev7, tr7) \<Rightarrow> (Faulted f, dev7, tr7))"
                  unfolding loop [symmetric] st6_def tr6_def ty_def
                  using c1 c2 c3 c4 c5 c6
                  by (simp add: blz_connect_new_def Let_def LOG_def
                    sd_bus_message_new_method_call_def sd_bus_message_open_container_def
                    msg_append_property_def sd_bus_message_close_container_def sd_bus_call_async_def
                    split del: if_split cong: if_cong)
                have after: "extends_by no_attempt tr6 tr7"
                  using loop_dev_no_attempt [of st6 fuel E connect_new_done
                          "word_of_int (CONNECT_NEW_TIMEOUT H * 1000)"] loop
                  by (simp add: st6_def)
                then have after2: "extends_by no_attempt tr6 (tr7 @ [Log LOG_ERR ''BLZ connect new timeout'' []])"
                  by (rule extends_by_snoc) simp
                show ?thesis
                  by (rule goal, unfold eq, cases out) (use after after2 in \<open>simp_all add: LOG_def\<close>)
              qed
            qed
          qed
        qed
      qed
    qed
  qed
qed

lemma blz_connect_new_prefix:
  "extends_by any_event (snd st) (snd (snd (blz_connect_new H fuel E macstr b st)))"
  using blz_connect_new_measures [of H fuel E macstr b st] by simp

lemma blz_connect_call_prefix:
  "extends_by any_event (snd st) (snd (snd (blz_connect_call H fuel E macstr atype cs r st)))"
proof -
  let ?b = "if atype = BLZ_ADDR_PUBLIC then True else False"
  obtain o1 dev1 tr1 where
    first: "blz_connect_new H fuel E macstr ?b st = (o1, dev1, tr1)"
    using prod_cases3 by blast
  have p1: "extends_by any_event (snd st) tr1"
    using blz_connect_new_prefix [of st H fuel E macstr ?b] first by simp
  have p2: "\<And>b. extends_by any_event (snd st)
              (snd (snd (blz_connect_new H fuel E macstr b (dev1, tr1))))"
    using extends_by_trans [OF p1 blz_connect_new_prefix [of "(dev1, tr1)", simplified]] by simp
  have k: "extends_by any_event (snd st) (snd (blz_connect_known E (fst st) (snd st)))"
    by (rule extends_by_any) (rule blz_connect_known_extends)
  show ?thesis
    unfolding blz_connect_call_def first
    using p1 p2 k
    by (cases o1) (simp_all add: split_beta extends_by_refl)
qed

lemma blz_connect_subscribe_tail:
  assumes "0 \<le> bus_ret E (length (snd st))"
  shows "extends_by no_attempt
           (snd (snd (blz_connect_call H fuel E macstr atype conn_status (bus_ret E (length (snd st)))
              (fst st\<lparr>connect_slot := Some (Slot (dev_path (fst st)))\<rparr>,
               snd st @ [Sd_bus_match_signal (dev_path (fst st))
                           ''org.freedesktop.DBus.Properties'' ''PropertiesChanged'']))))
           (snd (snd (blz_connect_subscribe H fuel E macstr atype cb conn_status st)))"
proof -
  let ?call = "blz_connect_call H fuel E macstr atype conn_status (bus_ret E (length (snd st)))
              (fst st\<lparr>connect_slot := Some (Slot (dev_path (fst st)))\<rparr>,
               snd st @ [Sd_bus_match_signal (dev_path (fst st))
                           ''org.freedesktop.DBus.Properties'' ''PropertiesChanged''])"
  obtain o2 dev2 tr2 where call: "?call = (o2, dev2, tr2)" using prod_cases3 by blast
  have eq: "blz_connect_subscribe H fuel E macstr atype cb conn_status st =
     (case (o2, dev2, tr2) of
        (Done r2, dev2, tr2) \<Rightarrow>
                if r2 < 0 then blz_connect_exit r2 (Some dev2, tr2)
                else blz_connect_wait fuel E cb (dev2, tr2)
            | (Out_of_fuel, dev2, tr2) \<Rightarrow> (Out_of_fuel, Some dev2, tr2)
            | (Faulted f, dev2, tr2) \<Rightarrow> (Faulted f, Some dev2, tr2))"
    unfolding call [symmetric] using assms
    by (simp add: blz_connect_subscribe_def sd_bus_match_signal_def Let_def
          split del: if_split cong: if_cong)
  have w: "extends_by no_attempt tr2 (snd (snd (blz_connect_wait fuel E cb (dev2, tr2))))"
    using blz_connect_wait_extends [of "(dev2, tr2)" fuel E cb] by simp
  show ?thesis
    unfolding eq call
    using w blz_connect_exit_extends [of tr2 _ "Some dev2"]
    by (cases o2) (simp_all add: extends_by_refl)
qed

section \<open>Concrete runs\<close>

text \<open>The run of \<open>blz_connect\<close> on the bus of \<open>retry_env\<close>, with the address
  type unspecified.\<close>

lemma retry_run:
  "blz_connect example_headers 3 retry_env example_ctx ''AA:BB:CC:DD:EE:FF'' BLZ_ADDR_UNKNOWN (Some 7) [] =
   (Done Dev_ptr,
  Some
   \<lparr>dev_ctx =
      \<lparr>ctx_path = ''/org/bluez/hci0'', scan_slot = None, scan_cb = None\<rparr>,
      dev_path = ''/org/bluez/hci0/dev_AA_BB_CC_DD_EE_FF'',
      connected = True, services_resolved = True,
      connect_slot = Some (Slot ''/org/bluez/hci0/dev_AA_BB_CC_DD_EE_FF''),
      disconnect_cb = Some 7, service_uuids = None, char_uuids = None,
      connect_new_done = True, connect_new_result = 1\<rparr>,
  [Calloc,
   Sd_bus_get_property_trivial ''/org/bluez/hci0/dev_AA_BB_CC_DD_EE_FF''
    ''org.bluez.Device1'' ''Connected'',
   Sd_bus_match_signal ''/org/bluez/hci0/dev_AA_BB_CC_DD_EE_FF''
    ''org.freedesktop.DBus.Properties'' ''PropertiesChanged'',
   Log LOG_INF ''Connect new to %s (%s)''
    [''AA:BB:CC:DD:EE:FF'', ''random''],
   Sd_bus_message_new_method_call ''/org/bluez/hci0'' ''org.bluez.Adapter1''
    ''ConnectDevice'',
   Sd_bus_message_open_container,
   Msg_append_property ''Address'' ''AA:BB:CC:DD:EE:FF'',
   Msg_append_property ''AddressType'' ''random'',
   Sd_bus_message_close_container,
   Sd_bus_call_async
    \<lparr>msg_path = ''/org/bluez/hci0'', msg_interface = ''org.bluez.Adapter1'',
       msg_member = ''ConnectDevice'',
       msg_props =
         [(''Address'', ''AA:BB:CC:DD:EE:FF''),
          (''AddressType'', ''random'')],
       msg_array = []\<rparr>
    15000000,
   Clock_gettime \<lparr>tv_sec = 0, tv_nsec = 0\<rparr>, Sd_bus_process,
   Log LOG_ERR ''BLZ connect new device paths don't match (%s %s)''
    [''/org/bluez/hci0/dev_00_11_22_33_44_55'',
     ''/org/bluez/hci0/dev_AA_BB_CC_DD_EE_FF''],
   Sd_bus_wait 15000000, Clock_gettime \<lparr>tv_sec = 0, tv_nsec = 0\<rparr>,
   Log LOG_INF ''Connect new to %s (%s)''
    [''AA:BB:CC:DD:EE:FF'', ''public''],
   Sd_bus_message_new_method_call ''/org/bluez/hci0'' ''org.bluez.Adapter1''
    ''ConnectDevice'',
   Sd_bus_message_open_container,
   Msg_append_property ''Address'' ''AA:BB:CC:DD:EE:FF'',
   Msg_append_property ''AddressType'' ''public'',
   Sd_bus_message_close_container,
   Sd_bus_call_async
    \<lparr>msg_path = ''/org/bluez/hci0'', msg_interface = ''org.bluez.Adapter1'',
       msg_member = ''ConnectDevice'',
       msg_props =
         [(''Address'', ''AA:BB:CC:DD:EE:FF''),
          (''AddressType'', ''public'')],
       msg_array = []\<rparr>
    15000000,
   Clock_gettime \<lparr>tv_sec = 0, tv_nsec = 0\<rparr>, Sd_bus_process,
   Sd_bus_wait 15000000, Clock_gettime \<lparr>tv_sec = 0, tv_nsec = 0\<rparr>,
   Clock_gettime \<lparr>tv_sec = 0, tv_nsec = 0\<rparr>, Sd_bus_process,
   Sd_bus_wait 30000000, Clock_gettime \<lparr>tv_sec = 0, tv_nsec = 0\<rparr>])"
  by code_simp

section \<open>Attempts of the address-based connect\<close>








section \<open>Subscription before the connect call\<close>

lemma subscribed_first_append:
  "list_all (\<lambda>e. \<not> is_connect_call e) xs \<Longrightarrow> subscribed_first E m (n + length xs) ys \<Longrightarrow>
   subscribed_first E m n (xs @ ys)"
  by (induction xs arbitrary: n) simp_all

lemma subscribed_first_no_connect:
  "list_all (\<lambda>e. \<not> is_connect_call e) xs \<Longrightarrow> subscribed_first E m n xs"
  using subscribed_first_append [of xs E m n "[]"] by simp

lemma subscribed_first_index:
  "subscribed_first E m n xs \<Longrightarrow> \<not> is_connect_call m \<Longrightarrow> j < length xs \<Longrightarrow>
   is_connect_call (xs ! j) \<Longrightarrow> \<exists>i<j. xs ! i = m \<and> 0 \<le> bus_ret E (n + i)"
proof (induction xs arbitrary: n j)
  case Nil
  then show ?case by simp
next
  case (Cons e es)
  show ?case
  proof (cases "e = m \<and> 0 \<le> bus_ret E n")
    case True
    have "j \<noteq> 0" using Cons.prems(2,4) True by (cases j) auto
    then show ?thesis using True by (intro exI [of _ 0]) simp
  next
    case False
    then have nc: "\<not> is_connect_call e" and rest: "subscribed_first E m (Suc n) es"
      using Cons.prems(1) by auto
    then obtain k where k: "j = Suc k" using Cons.prems(4) by (cases j) auto
    then obtain i where "i < k" "es ! i = m" "0 \<le> bus_ret E (Suc n + i)"
      using Cons.IH [OF rest Cons.prems(2), of k] Cons.prems(3,4) by auto
    then show ?thesis using k by (intro exI [of _ "Suc i"]) simp
  qed
qed

lemma subscribes_firstI:
  "subscribed_first E m (length tr) zs \<Longrightarrow> subscribes_first E m tr (tr @ zs)"
  by (simp add: subscribes_first_def)

lemma subscribes_first_shift:
  assumes "list_all (\<lambda>e. \<not> is_connect_call e) pre"
      and "subscribes_first E m (tr @ pre) tr1"
  shows "subscribes_first E m tr tr1"
proof -
  from assms(2) have "tr1 = (tr @ pre) @ drop (length (tr @ pre)) tr1"
    unfolding subscribes_first_def by (metis append_take_drop_id)
  then obtain zs where zs: "tr1 = tr @ pre @ zs" "zs = drop (length (tr @ pre)) tr1" by simp
  have "subscribed_first E m (length tr + length pre) zs"
    using assms(2) zs(2) by (simp add: subscribes_first_def)
  then have "subscribed_first E m (length tr) (pre @ zs)"
    by (rule subscribed_first_append [OF assms(1)])
  then show ?thesis unfolding zs(1) by (rule subscribes_firstI)
qed

lemma subscribe_subscribes_first:
  "subscribes_first E (properties_changed_match (dev_path (fst st))) (snd st)
     (snd (snd (blz_connect_subscribe H fuel E macstr atype cb cs st)))"
proof (cases "bus_ret E (length (snd st)) < 0")
  case True
  then show ?thesis
    by (cases "fst st")
       (simp add: blz_connect_subscribe_def sd_bus_match_signal_def Let_def LOG_def
          blz_connect_exit_def free_dev_def properties_changed_match_def subscribes_first_def)
next
  case False
  let ?m = "properties_changed_match (dev_path (fst st))"
  have a: "extends_by any_event (snd st @ [?m])
             (snd (snd (blz_connect_subscribe H fuel E macstr atype cb cs st)))"
    using False
      extends_by_trans [OF blz_connect_call_prefix
        extends_by_any [OF blz_connect_subscribe_tail [of E st H fuel macstr atype cs cb]]]
    by (simp add: properties_changed_match_def)
  then obtain zs where
    "snd (snd (blz_connect_subscribe H fuel E macstr atype cb cs st)) = snd st @ (?m # zs)"
    using extends_byE by fastforce
  then show ?thesis using False by (simp add: subscribes_first_def)
qed

lemma exit_subscribes_first:
  "subscribes_first E m tr (snd (snd (blz_connect_exit r (h, tr))))"
  by (cases h) (simp_all add: blz_connect_exit_def free_dev_def subscribes_first_def)

lemma status_subscribes_first:
  "subscribes_first E (properties_changed_match (dev_path (fst st))) (snd st)
     (snd (snd (blz_connect_status H fuel E macstr atype cb cs r st)))"
proof -
  let ?m = "properties_changed_match (dev_path (fst st))"
  show ?thesis
  proof (cases "cs = 1")
    case True
    define pre where "pre = [Log LOG_NOTI ''Device %s already was connected'' [macstr],
        Sd_bus_get_property_trivial (dev_path (fst st)) ''org.bluez.Device1'' ''ServicesResolved'']"
    have pre: "list_all (\<lambda>e. \<not> is_connect_call e) pre" by (simp add: pre_def)
    show ?thesis
    proof (cases "bus_ret E (Suc (length (snd st))) < 0")
      case neg: True
      have "blz_connect_status H fuel E macstr atype cb cs r st =
              blz_connect_exit (bus_ret E (Suc (length (snd st))))
                (Some (fst st), (snd st @ pre) @ [Log LOG_ERR ''BLZ failed to get ServicesResolved: %s'' []])"
        using True neg
        by (simp add: blz_connect_status_def sd_bus_get_property_trivial_def Let_def LOG_def pre_def)
      moreover have "list_all (\<lambda>e. \<not> is_connect_call e)
                       (pre @ [Log LOG_ERR ''BLZ failed to get ServicesResolved: %s'' []])"
        using pre by simp
      ultimately show ?thesis
        using subscribes_first_shift [OF _ exit_subscribes_first, of
                "pre @ [Log LOG_ERR ''BLZ failed to get ServicesResolved: %s'' []]" E ?m "snd st"]
        by simp
    next
      case False
      define dev2 where "dev2 = (fst st)\<lparr>services_resolved := bus_bool E (Suc (length (snd st)))\<rparr>"
      have eq: "blz_connect_status H fuel E macstr atype cb cs r st =
                  blz_connect_subscribe H fuel E macstr atype cb cs (dev2, snd st @ pre)"
        using True False
        by (simp add: blz_connect_status_def sd_bus_get_property_trivial_def Let_def LOG_def
              pre_def dev2_def)
      have s: "subscribes_first E ?m (snd st @ pre)
                 (snd (snd (blz_connect_subscribe H fuel E macstr atype cb cs (dev2, snd st @ pre))))"
        using subscribe_subscribes_first [of E "(dev2, snd st @ pre)" H fuel macstr atype cb cs]
        by (simp add: dev2_def)
      show ?thesis unfolding eq by (rule subscribes_first_shift [OF pre s])
    qed
  next
    case False
    show ?thesis
    proof (cases "cs \<noteq> 0 \<and> cs \<noteq> - 1")
      case True
      then show ?thesis using False
        by (simp add: blz_connect_status_def Let_def exit_subscribes_first)
    next
      case f2: False
      then have "blz_connect_status H fuel E macstr atype cb cs r st =
              blz_connect_subscribe H fuel E macstr atype cb cs st"
        using False by (auto simp add: blz_connect_status_def Let_def)
      then show ?thesis by (simp add: subscribe_subscribes_first)
    qed
  qed
qed

lemma connect_subscribes_first:
  "subscribes_first E
     (properties_changed_match (device_path (ctx_path ctx) (blz_string_to_mac H macstr))) tr
     (snd (snd (blz_connect H fuel E ctx macstr atype cb tr)))"
proof -
  define p where "p = device_path (ctx_path ctx) (blz_string_to_mac H macstr)"
  define dev where "dev = \<lparr>dev_ctx = ctx, dev_path = p, connected = False,
            services_resolved = False, connect_slot = None, disconnect_cb = None,
            service_uuids = None, char_uuids = None, connect_new_done = False,
            connect_new_result = 0\<rparr>"
  define pre where "pre = [Calloc, Sd_bus_get_property_trivial p ''org.bluez.Device1'' ''Connected'']"
  have pre: "list_all (\<lambda>e. \<not> is_connect_call e) pre" by (simp add: pre_def)
  let ?m = "properties_changed_match p"
  have goal: ?thesis if "subscribes_first E ?m tr (snd (snd (blz_connect H fuel E ctx macstr atype cb tr)))"
    using that by (simp add: p_def)
  show ?thesis
  proof (rule goal, cases "alloc_ok E (length tr)")
    case False
    then show "subscribes_first E ?m tr (snd (snd (blz_connect H fuel E ctx macstr atype cb tr)))"
      by (simp add: blz_connect_def LOG_def subscribes_first_def)
  next
    case alloc: True
    show "subscribes_first E ?m tr (snd (snd (blz_connect H fuel E ctx macstr atype cb tr)))"
    proof (cases "DBUS_PATH_MAX_LEN H \<le> length p")
      case True
      then show ?thesis using alloc
        by (simp add: blz_connect_def LOG_def subscribes_first_def Let_def free_dev_def
              p_def [symmetric])
    next
      case fits: False
      let ?r = "bus_ret E (Suc (length tr))"
      show ?thesis
      proof (cases "?r < 0 \<and> \<not> bus_unknown_object E (Suc (length tr))")
        case True
        then have "blz_connect H fuel E ctx macstr atype cb tr =
                blz_connect_exit ?r
                  (Some dev, (tr @ pre) @ [Log LOG_ERR ''BLZ failed to get connected: %s'' []])"
          using alloc fits
          by (simp add: blz_connect_def sd_bus_get_property_trivial_def Let_def LOG_def
                p_def [symmetric] dev_def pre_def)
        moreover have "list_all (\<lambda>e. \<not> is_connect_call e)
                         (pre @ [Log LOG_ERR ''BLZ failed to get connected: %s'' []])"
          using pre by simp
        ultimately show ?thesis
          using subscribes_first_shift [OF _ exit_subscribes_first, of
                  "pre @ [Log LOG_ERR ''BLZ failed to get connected: %s'' []]" E ?m tr]
          by simp
      next
        case False
        then obtain cs where "blz_connect H fuel E ctx macstr atype cb tr =
                blz_connect_status H fuel E macstr atype cb cs ?r (dev, tr @ pre)"
          using alloc fits
          by (simp add: blz_connect_def sd_bus_get_property_trivial_def Let_def
                p_def [symmetric] dev_def pre_def)
        moreover have "subscribes_first E ?m (tr @ pre)
               (snd (snd (blz_connect_status H fuel E macstr atype cb cs ?r (dev, tr @ pre))))"
          using status_subscribes_first [of E "(dev, tr @ pre)" H fuel macstr atype cb cs ?r]
          by (simp add: dev_def)
        ultimately show ?thesis
          using subscribes_first_shift [OF pre] by simp
      qed
    qed
  qed
qed

text \<open>
  C4. In every run of \<open>blz_connect\<close>, complete or still waiting, each connect call that
  the run puts on the bus (Connect on the device path or ConnectDevice on the adapter)
  comes after the subscription to PropertiesChanged on the device path, made by the same
  run, and that subscription succeeded.
\<close>

theorem subscription_precedes_connect_call:
  assumes "j < length (snd (snd (blz_connect H fuel E ctx macstr atype cb tr)))"
      and "length tr \<le> j"
      and "is_connect_call (snd (snd (blz_connect H fuel E ctx macstr atype cb tr)) ! j)"
  shows "\<exists>i. length tr \<le> i \<and> i < j \<and>
             snd (snd (blz_connect H fuel E ctx macstr atype cb tr)) ! i =
               Sd_bus_match_signal (device_path (ctx_path ctx) (blz_string_to_mac H macstr))
                 ''org.freedesktop.DBus.Properties'' ''PropertiesChanged'' \<and>
             0 \<le> bus_ret E i"
proof -
  let ?tr1 = "snd (snd (blz_connect H fuel E ctx macstr atype cb tr))"
  let ?m = "properties_changed_match (device_path (ctx_path ctx) (blz_string_to_mac H macstr))"
  have sf: "subscribes_first E ?m tr ?tr1" by (rule connect_subscribes_first)
  then have pre: "take (length tr) ?tr1 = tr"
    and scan: "subscribed_first E ?m (length tr) (drop (length tr) ?tr1)"
    by (simp_all add: subscribes_first_def)
  have nm: "\<not> is_connect_call ?m" by (simp add: properties_changed_match_def)
  have j1: "j - length tr < length (drop (length tr) ?tr1)" using assms(1,2) by simp
  have j2: "is_connect_call (drop (length tr) ?tr1 ! (j - length tr))"
    using assms by simp
  from subscribed_first_index [OF scan nm j1 j2]
  obtain i where i: "i < j - length tr" "drop (length tr) ?tr1 ! i = ?m"
      "0 \<le> bus_ret E (length tr + i)" by blast
  have "?tr1 ! (length tr + i) = ?m" using i(1,2) assms(1,2) by simp
  then show ?thesis
    using i assms(2)
    by (intro exI [of _ "length tr + i"]) (simp add: properties_changed_match_def)
qed

theorem subscription_precedes_connect_call_witness:
  "9 < length (snd (snd (blz_connect example_headers 3 retry_env example_ctx
                           ''AA:BB:CC:DD:EE:FF'' BLZ_ADDR_UNKNOWN (Some 7) []))) \<and>
   length ([] :: event list) \<le> 9 \<and>
   is_connect_call (snd (snd (blz_connect example_headers 3 retry_env example_ctx
                           ''AA:BB:CC:DD:EE:FF'' BLZ_ADDR_UNKNOWN (Some 7) [])) ! 9) \<and>
   (\<exists>i. length ([] :: event list) \<le> i \<and> i < 9 \<and>
        snd (snd (blz_connect example_headers 3 retry_env example_ctx
                    ''AA:BB:CC:DD:EE:FF'' BLZ_ADDR_UNKNOWN (Some 7) [])) ! i =
          Sd_bus_match_signal
            (device_path (ctx_path example_ctx)
               (blz_string_to_mac example_headers ''AA:BB:CC:DD:EE:FF''))
            ''org.freedesktop.DBus.Properties'' ''PropertiesChanged'' \<and>
        0 \<le> bus_ret retry_env i)"
proof -
  have h1: "9 < length (snd (snd (blz_connect example_headers 3 retry_env example_ctx
                           ''AA:BB:CC:DD:EE:FF'' BLZ_ADDR_UNKNOWN (Some 7) [])))"
    unfolding retry_run by simp
  have h2: "length ([] :: event list) \<le> 9" by simp
  have h3: "is_connect_call (snd (snd (blz_connect example_headers 3 retry_env example_ctx
                           ''AA:BB:CC:DD:EE:FF'' BLZ_ADDR_UNKNOWN (Some 7) [])) ! 9)"
    unfolding retry_run by code_simp
  from subscription_precedes_connect_call [OF h1 h2 h3] h1 h2 h3 show ?thesis by blast
qed

section \<open>Timeout of the wait for ServicesResolved\<close>

text \<open>What holds on every run: a timeout of the wait is followed by the log line, the
  whole of \<open>blz_disconnect\<close> (which frees the handle) and the \<open>free\<close> of the \<open>exit\<close>
  label on the same handle; and a handle is returned only with ServicesResolved set.\<close>

lemma blz_loop_timeout_done:
  assumes "blz_loop_timeout fuel E deliver check timeout_ms st = (Done r, s1, tr1)"
  shows "r = (if check s1 then 0 else - 1)"
  using assms
  by (auto simp: blz_loop_timeout_def Let_def split_beta split: if_splits)

lemma blz_connect_wait_timeout:
  assumes "blz_loop_timeout fuel E deliver_dev services_resolved 30000 st = (Done r, dev1, tr1)"
      and "r < 0"
  shows "blz_connect_wait fuel E cb st =
     (Faulted Double_free, None,
      tr1 @ [Log LOG_ERR ''BLZ timeout waiting for ServicesResolved'' []]
          @ disconnect_events E dev1 (tr1 @ [Log LOG_ERR ''BLZ timeout waiting for ServicesResolved'' []])
          @ [Free_dev])"
  using assms
  by (simp add: blz_connect_wait_def blz_disconnect_trace blz_connect_exit_def free_dev_def
        LOG_def del: blz_disconnect.simps)

lemma blz_connect_exit_handle:
  assumes "blz_connect_exit r (h, tr) = (Done Dev_ptr, h1, tr1)"
  shows "0 \<le> r \<and> h1 = h \<and> tr1 = tr"
  using assms by (cases h) (auto simp: blz_connect_exit_def free_dev_def split: if_splits)

lemma blz_connect_wait_handle:
  assumes "blz_connect_wait fuel E cb st = (Done Dev_ptr, h, tr1)"
  shows "\<exists>dev. h = Some dev \<and> services_resolved dev \<and> connected dev"
proof -
  obtain out dev1 tr2 where
    res: "blz_loop_timeout fuel E deliver_dev services_resolved 30000 st = (out, dev1, tr2)"
    using prod_cases3 by blast
  show ?thesis
  proof (cases out)
    case (Done r)
    have r: "r = (if services_resolved dev1 then 0 else - 1)"
      using blz_loop_timeout_done [of fuel E deliver_dev services_resolved 30000 st r dev1 tr2]
        res Done by simp
    show ?thesis
    proof (cases "r < 0")
      case True
      then show ?thesis
        using assms blz_connect_wait_timeout [of fuel E st r dev1 tr2 cb] res Done by simp
    next
      case False
      then have sr: "services_resolved dev1" using r by (auto split: if_splits)
      have "blz_connect_exit r (Some (dev1\<lparr>connected := True, disconnect_cb := cb\<rparr>), tr2) =
              (Done Dev_ptr, h, tr1)"
        using assms res Done False by (simp add: blz_connect_wait_def)
      from blz_connect_exit_handle [OF this] show ?thesis using sr by auto
    qed
  next
    case Out_of_fuel
    then show ?thesis using assms res by (simp add: blz_connect_wait_def)
  next
    case (Faulted f)
    then show ?thesis using assms res by (simp add: blz_connect_wait_def)
  qed
qed

lemma blz_connect_subscribe_handle:
  assumes "blz_connect_subscribe H fuel E macstr atype cb cs st = (Done Dev_ptr, h, tr1)"
  shows "\<exists>dev. h = Some dev \<and> services_resolved dev \<and> connected dev"
proof (cases "bus_ret E (length (snd st)) < 0")
  case True
  then have "blz_connect_exit (bus_ret E (length (snd st)))
               (Some (fst st), snd st @ [Sd_bus_match_signal (dev_path (fst st))
                   ''org.freedesktop.DBus.Properties'' ''PropertiesChanged'',
                  Log LOG_ERR ''BLZ Failed to add connect signal'' []]) = (Done Dev_ptr, h, tr1)"
    using assms
    by (simp add: blz_connect_subscribe_def sd_bus_match_signal_def Let_def LOG_def)
  from blz_connect_exit_handle [OF this] True show ?thesis by simp
next
  case False
  let ?call = "blz_connect_call H fuel E macstr atype cs (bus_ret E (length (snd st)))
              (fst st\<lparr>connect_slot := Some (Slot (dev_path (fst st)))\<rparr>,
               snd st @ [Sd_bus_match_signal (dev_path (fst st))
                           ''org.freedesktop.DBus.Properties'' ''PropertiesChanged''])"
  obtain o2 dev2 tr2 where call: "?call = (o2, dev2, tr2)" using prod_cases3 by blast
  have eq: "blz_connect_subscribe H fuel E macstr atype cb cs st =
     (case (o2, dev2, tr2) of
        (Done r2, dev2, tr2) \<Rightarrow>
                if r2 < 0 then blz_connect_exit r2 (Some dev2, tr2)
                else blz_connect_wait fuel E cb (dev2, tr2)
            | (Out_of_fuel, dev2, tr2) \<Rightarrow> (Out_of_fuel, Some dev2, tr2)
            | (Faulted f, dev2, tr2) \<Rightarrow> (Faulted f, Some dev2, tr2))"
    unfolding call [symmetric] using False
    by (simp add: blz_connect_subscribe_def sd_bus_match_signal_def Let_def
          split del: if_split cong: if_cong)
  show ?thesis
  proof (cases o2)
    case (Done r2)
    show ?thesis
    proof (cases "r2 < 0")
      case True
      then have "blz_connect_exit r2 (Some dev2, tr2) = (Done Dev_ptr, h, tr1)"
        using assms eq Done by simp
      from blz_connect_exit_handle [OF this] True show ?thesis by simp
    next
      case False
      then have "blz_connect_wait fuel E cb (dev2, tr2) = (Done Dev_ptr, h, tr1)"
        using assms eq Done by simp
      then show ?thesis by (rule blz_connect_wait_handle)
    qed
  next
    case Out_of_fuel
    then show ?thesis using assms eq by simp
  next
    case (Faulted f)
    then show ?thesis using assms eq by simp
  qed
qed

lemma blz_connect_status_handle:
  assumes "blz_connect_status H fuel E macstr atype cb cs r st = (Done Dev_ptr, h, tr1)"
      and "cs = 0 \<or> cs = 1 \<or> cs = - 1"
  shows "\<exists>dev. h = Some dev \<and> services_resolved dev \<and> connected dev"
proof (cases "cs = 1")
  case True
  show ?thesis
  proof (cases "bus_ret E (Suc (length (snd st))) < 0")
    case neg: True
    have "\<exists>tr2. blz_connect_exit (bus_ret E (Suc (length (snd st)))) (Some (fst st), tr2) =
            (Done Dev_ptr, h, tr1)"
      using assms(1) True neg
      by (fastforce simp add: blz_connect_status_def sd_bus_get_property_trivial_def Let_def
            LOG_def)
    then show ?thesis using blz_connect_exit_handle neg by fastforce
  next
    case False
    then have "\<exists>st2. blz_connect_subscribe H fuel E macstr atype cb cs st2 = (Done Dev_ptr, h, tr1)"
      using assms(1) True
      by (auto simp add: blz_connect_status_def sd_bus_get_property_trivial_def Let_def LOG_def)
    then show ?thesis using blz_connect_subscribe_handle by blast
  qed
next
  case False
  then have "blz_connect_subscribe H fuel E macstr atype cb cs st = (Done Dev_ptr, h, tr1)"
    using assms by (auto simp add: blz_connect_status_def Let_def)
  then show ?thesis by (rule blz_connect_subscribe_handle)
qed

lemma blz_connect_returns_resolved_handle:
  assumes "blz_connect H fuel E ctx macstr atype cb tr = (Done Dev_ptr, h, tr1)"
  shows "\<exists>dev. h = Some dev \<and> services_resolved dev \<and> connected dev"
proof -
  have alloc: "alloc_ok E (length tr)"
    using assms by (auto simp: blz_connect_def split: if_splits)
  define p where "p = device_path (ctx_path ctx) (blz_string_to_mac H macstr)"
  have fits: "\<not> DBUS_PATH_MAX_LEN H \<le> length p"
    using assms alloc
    by (auto simp: blz_connect_def Let_def p_def free_dev_def split: if_splits)
  let ?r = "bus_ret E (Suc (length tr))"
  show ?thesis
  proof (cases "?r < 0 \<and> \<not> bus_unknown_object E (Suc (length tr))")
    case True
    then have "\<exists>d tr2. blz_connect_exit ?r (Some d, tr2) = (Done Dev_ptr, h, tr1)"
      using assms alloc fits
      by (fastforce simp add: blz_connect_def sd_bus_get_property_trivial_def Let_def
            p_def [symmetric])
    then show ?thesis using blz_connect_exit_handle True by fastforce
  next
    case False
    define cs :: int where "cs = (if ?r < 0 then (if bus_unknown_object E (Suc (length tr)) then - 1 else - 2)
                                else (if bus_bool E (Suc (length tr)) then 1 else 0))"
    have cs: "cs = 0 \<or> cs = 1 \<or> cs = - 1" using False by (auto simp: cs_def)
    have "\<exists>st2. blz_connect_status H fuel E macstr atype cb cs ?r st2 = (Done Dev_ptr, h, tr1)"
      using assms alloc fits False
      by (fastforce simp add: blz_connect_def sd_bus_get_property_trivial_def Let_def
            p_def [symmetric] cs_def)
    then have "\<exists>cs st2. (cs = 0 \<or> cs = 1 \<or> cs = - 1) \<and>
                 blz_connect_status H fuel E macstr atype cb cs ?r st2 = (Done Dev_ptr, h, tr1)"
      using cs by blast
    then show ?thesis using blz_connect_status_handle by blast
  qed
qed

text \<open>
  C3. The device is known, Connect succeeds and ServicesResolved does not arrive within
  the 30 s. \<open>blz_connect\<close> logs the timeout and performs the compensating disconnect, but
  \<open>blz_disconnect\<close> has freed the handle when the \<open>exit\<close> label frees it again: the run
  ends in a double free instead of returning NULL.
\<close>

theorem services_resolved_timeout_frees_twice:
  "blz_connect example_headers 3 stalled_env example_ctx ''AA:BB:CC:DD:EE:FF'' BLZ_ADDR_UNKNOWN (Some 7) [] =
   (Faulted Double_free, None,
  [Calloc,
   Sd_bus_get_property_trivial ''/org/bluez/hci0/dev_AA_BB_CC_DD_EE_FF''
    ''org.bluez.Device1'' ''Connected'',
   Sd_bus_match_signal ''/org/bluez/hci0/dev_AA_BB_CC_DD_EE_FF''
    ''org.freedesktop.DBus.Properties'' ''PropertiesChanged'',
   Sd_bus_call_method ''/org/bluez/hci0/dev_AA_BB_CC_DD_EE_FF''
    ''org.bluez.Device1'' ''Connect'',
   Clock_gettime \<lparr>tv_sec = 100, tv_nsec = 0\<rparr>, Sd_bus_process,
   Sd_bus_wait 30000000, Clock_gettime \<lparr>tv_sec = 130, tv_nsec = 0\<rparr>,
   Log LOG_ERR ''BLZ timeout waiting for ServicesResolved'' [],
   Sd_bus_slot_unref ''/org/bluez/hci0/dev_AA_BB_CC_DD_EE_FF'',
   Sd_bus_call_method ''/org/bluez/hci0/dev_AA_BB_CC_DD_EE_FF''
    ''org.bluez.Device1'' ''Disconnect'',
   Free_strv Service_uuids None, Free_strv Char_uuids None, Free_dev,
   Free_dev])"
  by code_simp

end
